theory Spec2Isabelle
  imports Main
begin

section \<open>The STB tester of stb\_menu.py: the world it runs in\<close>

text \<open>
  The program is a single-threaded Python script that drives a set-top box through the
  \<^verbatim>\<open>adb\<close> command-line tool. Everything it does besides computing is an external call:
  \<^verbatim>\<open>subprocess.run\<close>, \<^verbatim>\<open>time.sleep\<close>, \<^verbatim>\<open>time.time\<close>, \<^verbatim>\<open>input\<close>, \<^verbatim>\<open>print\<close>
  and \<^verbatim>\<open>sys.exit\<close>. The model threads a \<open>world\<close> through every function: a clock in
  seconds, the number of external calls answered so far, the trace of the external calls
  (newest first), and the fields of the \<^verbatim>\<open>STBTester\<close> object (\<^verbatim>\<open>self.device\<close> is
  threaded as a value of its own, since it is always passed explicitly). The answers of the device
  and of the operator are an arbitrary environment \<open>env\<close>, indexed by the call counters,
  so a theorem for all \<open>env\<close> holds for every behaviour of the device.

  Python strings are lists of characters, one \<open>char\<close> per code point (code points below
  256); Python's unbounded integers and its clock readings are \<open>int\<close> (whole seconds).
\<close>

datatype exn = CalledProcessError | TimeoutExpired | OSError | EOFError

text \<open>What a Python call does: return a value, leave through \<^verbatim>\<open>sys.exit(code)\<close>
  (\<^verbatim>\<open>SystemExit\<close>, which no \<^verbatim>\<open>except Exception\<close> catches), or raise.\<close>

datatype 'a result = Return 'a | Exit int | Raise exn

text \<open>\<^verbatim>\<open>subprocess.run(..., capture_output=True)\<close>: the captured stdout, or the exception
  raised (\<^verbatim>\<open>CalledProcessError\<close> under \<^verbatim>\<open>check=True\<close>, \<^verbatim>\<open>TimeoutExpired\<close> under
  \<^verbatim>\<open>timeout=\<close>, \<^verbatim>\<open>OSError\<close> when the tool cannot be started).\<close>

datatype proc = Completed string | Failed exn

datatype reply = Reply (took: nat) (outcome: proc)

text \<open>The device identifier \<^verbatim>\<open>f"{ip}:{port}"\<close>, kept as the pair it is formatted from.\<close>

type_synonym device = "string \<times> int"

datatype adb_cmd =
    Devices
  | Connect device
  | GetState device
  | DumpsysPower device
  | KeyEvent device string
  | AmStart device string string
  | Monkey device string string
  | SettingsPut device string string string
  | SetProp device string string
  | CecSetting device

text \<open>A formatted value of an f-string.\<close>

datatype arg = S string | I int | E exn

datatype event =
    Sleep nat
  | Now int
  | Adb adb_cmd proc
  | Log string "arg list"
  | Print string "arg list"
  | Input string
  | Clear

record env =
  adb :: "nat \<Rightarrow> reply"
  stdin :: "nat \<Rightarrow> string option"
  sty :: bool
  strftime :: "int \<Rightarrow> string"

record world =
  clock :: int
  adb_calls :: nat
  inputs_read :: nat
  trace :: "event list"
  error_already_shown :: bool
  ip :: "string option"
  port :: int
  log_path :: "string option"

definition sleep :: "nat \<Rightarrow> world \<Rightarrow> world" where
  "sleep n w = w\<lparr>clock := clock w + int n, trace := Sleep n # trace w\<rparr>"

definition time_time :: "world \<Rightarrow> int \<times> world" where
  "time_time w = (clock w, w\<lparr>trace := Now (clock w) # trace w\<rparr>)"

definition subprocess_run :: "env \<Rightarrow> adb_cmd \<Rightarrow> world \<Rightarrow> proc \<times> world" where
  "subprocess_run e c w =
     (let r = adb e (adb_calls w)
      in (outcome r,
          w\<lparr>clock := clock w + int (took r), adb_calls := Suc (adb_calls w),
            trace := Adb c (outcome r) # trace w\<rparr>))"

definition f_log :: "string \<Rightarrow> arg list \<Rightarrow> world \<Rightarrow> world" where
  "f_log msg args w = w\<lparr>trace := Log msg args # trace w\<rparr>"

definition print :: "string \<Rightarrow> arg list \<Rightarrow> world \<Rightarrow> world" where
  "print msg args w = w\<lparr>trace := Print msg args # trace w\<rparr>"

definition clear_screen :: "world \<Rightarrow> world" where
  "clear_screen w = w\<lparr>trace := Clear # trace w\<rparr>"

text \<open>One iteration of a loop either leaves the loop with a value (\<^verbatim>\<open>return\<close>,
  \<^verbatim>\<open>sys.exit\<close>, a raise, or the loop condition turning false) or goes round again.\<close>

datatype 'a flow = Break 'a | Continue world

text \<open>\<^verbatim>\<open>f"{ip}"\<close> of a field that is \<^verbatim>\<open>None\<close> until the operator has typed it.\<close>

definition str_opt :: "string option \<Rightarrow> string" where
  "str_opt s = (case s of None \<Rightarrow> ''None'' | Some t \<Rightarrow> t)"

subsection \<open>Strings\<close>

fun startswith :: "string \<Rightarrow> string \<Rightarrow> bool" where
  "startswith s [] = True"
| "startswith [] (p # ps) = False"
| "startswith (c # cs) (p # ps) = (c = p \<and> startswith cs ps)"

text \<open>\<^verbatim>\<open>needle in haystack\<close>.\<close>

fun contains :: "string \<Rightarrow> string \<Rightarrow> bool" where
  "contains [] needle = (needle = [])"
| "contains (c # cs) needle = (startswith (c # cs) needle \<or> contains cs needle)"

definition lower_char :: "char \<Rightarrow> char" where
  "lower_char c =
     (let n = (of_char c :: nat)
      in if 65 \<le> n \<and> n \<le> 90 then char_of (n + 32) else c)"

definition lower :: "string \<Rightarrow> string" where
  "lower s = map lower_char s"

subsection \<open>Standby detection\<close>

definition f_is_in_standby :: "env \<Rightarrow> device \<Rightarrow> world \<Rightarrow> bool \<times> world" where
  "f_is_in_standby e dev w =
     (case subprocess_run e (DumpsysPower dev) w of
        (Completed out, w1) \<Rightarrow>
          (let output = lower out
           in (contains output ''mwakefulness=asleep'' \<or>
               contains output ''mwakefulness=dozing'' \<or>
               contains output ''display power: state=off'', w1))
      | (Failed x, w1) \<Rightarrow> (False, w1))"

lemma clock_f_is_in_standby: "clock w \<le> clock (snd (f_is_in_standby e dev w))"
  by (simp add: f_is_in_standby_def subprocess_run_def Let_def split: prod.splits proc.splits)

text \<open>One iteration of \<^verbatim>\<open>while self.f_is_in_standby(device)\<close> in \<^verbatim>\<open>f_wait_standby_exit\<close>:
  the poll of the loop condition, then the deadline, then \<^verbatim>\<open>time.sleep(10)\<close>.\<close>

definition wait_standby_iter ::
  "env \<Rightarrow> device \<Rightarrow> int \<Rightarrow> int \<Rightarrow> world \<Rightarrow> (unit result \<times> world) flow" where
  "wait_standby_iter e dev initial_time duration w =
     (case f_is_in_standby e dev w of
        (False, w1) \<Rightarrow> Break (Return (), w1)
      | (True, w1) \<Rightarrow>
          (case time_time w1 of
             (now, w2) \<Rightarrow>
               if now - initial_time \<ge> duration then
                 Break (Exit 0,
                        f_log ''Maximum time of {} reached during standby.'' [I duration] w2)
               else Continue (sleep 10 w2)))"

lemma wait_standby_iter_Continue:
  "wait_standby_iter e dev initial_time duration w = Continue w1 \<Longrightarrow>
   clock w - initial_time < duration \<and> clock w + 10 \<le> clock w1"
  using clock_f_is_in_standby [of w e dev]
  by (auto simp: wait_standby_iter_def time_time_def sleep_def split: prod.splits bool.splits if_splits)

function wait_standby_loop ::
  "env \<Rightarrow> device \<Rightarrow> int \<Rightarrow> int \<Rightarrow> world \<Rightarrow> unit result \<times> world" where
  "wait_standby_loop e dev initial_time duration w =
     (case wait_standby_iter e dev initial_time duration w of
        Break r \<Rightarrow> r
      | Continue w1 \<Rightarrow> wait_standby_loop e dev initial_time duration w1)"
  by pat_completeness auto
termination
proof (relation "measure (\<lambda>(e, dev, initial_time, duration, w).
                   nat (initial_time + duration - clock w))", goal_cases)
  case 1
  show ?case by simp
next
  case (2 e dev initial_time duration w w1)
  then show ?case
    using wait_standby_iter_Continue [of e dev initial_time duration w w1] by simp
qed

definition f_wait_standby_exit ::
  "env \<Rightarrow> device \<Rightarrow> int \<Rightarrow> int \<Rightarrow> world \<Rightarrow> unit result \<times> world" where
  "f_wait_standby_exit e dev initial_time duration w =
     (case wait_standby_loop e dev initial_time duration
             (f_log ''STB is in STANDBY. Waiting for wake-up...'' [] w) of
        (Return u, w1) \<Rightarrow> (Return (), f_log ''STB returned from standby.'' [] w1)
      | (Exit n, w1) \<Rightarrow> (Exit n, w1)
      | (Raise x, w1) \<Rightarrow> (Raise x, w1))"

subsection \<open>Sending keys\<close>

definition f_send_key :: "env \<Rightarrow> device \<Rightarrow> string \<Rightarrow> string \<Rightarrow> world \<Rightarrow> bool \<times> world" where
  "f_send_key e dev key_code key_name w =
     (case subprocess_run e (KeyEvent dev key_code) w of
        (Completed out, w1) \<Rightarrow>
          (True, f_log ''{} sent successfully'' [S key_name] (w1\<lparr>error_already_shown := False\<rparr>))
      | (Failed x, w1) \<Rightarrow>
          (False,
           sleep 5
             (if \<not> error_already_shown w1
              then (f_log ''Error sending {}: {}'' [S key_name, E x] w1)\<lparr>error_already_shown := True\<rparr>
              else w1)))"

text \<open>The shape shared by the keys that pause after a successful send:
  \<^verbatim>\<open>if self.f_send_key(...): time.sleep(d); return True; return False\<close>.\<close>

definition send_then_sleep ::
  "env \<Rightarrow> device \<Rightarrow> string \<Rightarrow> string \<Rightarrow> nat \<Rightarrow> world \<Rightarrow> bool \<times> world" where
  "send_then_sleep e dev key_code key_name d w =
     (case f_send_key e dev key_code key_name w of
        (True, w1) \<Rightarrow> (True, sleep d w1)
      | (False, w1) \<Rightarrow> (False, w1))"

text \<open>The shape of the keys that pause first:
  \<^verbatim>\<open>time.sleep(d); return self.f_send_key(...)\<close>.\<close>

definition sleep_then_send ::
  "env \<Rightarrow> device \<Rightarrow> string \<Rightarrow> string \<Rightarrow> nat \<Rightarrow> world \<Rightarrow> bool \<times> world" where
  "sleep_then_send e dev key_code key_name d w =
     f_send_key e dev key_code key_name (sleep d w)"

definition f_send_home_key :: "env \<Rightarrow> device \<Rightarrow> world \<Rightarrow> bool \<times> world" where
  "f_send_home_key e dev = send_then_sleep e dev ''3'' ''KEY_HOME'' 10"

definition f_send_right_key :: "env \<Rightarrow> device \<Rightarrow> world \<Rightarrow> bool \<times> world" where
  "f_send_right_key e dev = send_then_sleep e dev ''22'' ''KEY_RIGHT'' 5"

definition f_send_left_key :: "env \<Rightarrow> device \<Rightarrow> world \<Rightarrow> bool \<times> world" where
  "f_send_left_key e dev = send_then_sleep e dev ''21'' ''KEY_LEFT'' 5"

definition f_send_down_key :: "env \<Rightarrow> device \<Rightarrow> world \<Rightarrow> bool \<times> world" where
  "f_send_down_key e dev = send_then_sleep e dev ''20'' ''KEY_DOWN'' 5"

definition f_send_up_key :: "env \<Rightarrow> device \<Rightarrow> world \<Rightarrow> bool \<times> world" where
  "f_send_up_key e dev = send_then_sleep e dev ''19'' ''KEY_UP'' 5"

definition f_send_ok_key :: "env \<Rightarrow> device \<Rightarrow> world \<Rightarrow> bool \<times> world" where
  "f_send_ok_key e dev = send_then_sleep e dev ''23'' ''KEY_OK'' 5"

definition f_send_back_key :: "env \<Rightarrow> device \<Rightarrow> world \<Rightarrow> bool \<times> world" where
  "f_send_back_key e dev = sleep_then_send e dev ''4'' ''KEY_BACK'' 10"

definition f_send_live_key :: "env \<Rightarrow> device \<Rightarrow> world \<Rightarrow> bool \<times> world" where
  "f_send_live_key e dev = send_then_sleep e dev ''170'' ''KEY_LIVE'' 5"

definition f_send_guide_key :: "env \<Rightarrow> device \<Rightarrow> world \<Rightarrow> bool \<times> world" where
  "f_send_guide_key e dev = sleep_then_send e dev ''172'' ''KEY_GUIDE'' 5"

definition f_send_channelUP_key :: "env \<Rightarrow> device \<Rightarrow> world \<Rightarrow> bool \<times> world" where
  "f_send_channelUP_key e dev = sleep_then_send e dev ''166'' ''KEY_CHANNEL_UP'' 20"

definition f_send_channelDOWN_key :: "env \<Rightarrow> device \<Rightarrow> world \<Rightarrow> bool \<times> world" where
  "f_send_channelDOWN_key e dev = sleep_then_send e dev ''167'' ''KEY_CHANNEL_DOWN'' 20"

definition f_send_volume_up_key :: "env \<Rightarrow> device \<Rightarrow> world \<Rightarrow> bool \<times> world" where
  "f_send_volume_up_key e dev = send_then_sleep e dev ''24'' ''KEY_VOLUME_UP'' 3"

definition f_send_volume_down_key :: "env \<Rightarrow> device \<Rightarrow> world \<Rightarrow> bool \<times> world" where
  "f_send_volume_down_key e dev = send_then_sleep e dev ''25'' ''KEY_VOLUME_DOWN'' 3"

definition f_send_mute_key :: "env \<Rightarrow> device \<Rightarrow> world \<Rightarrow> bool \<times> world" where
  "f_send_mute_key e dev = send_then_sleep e dev ''164'' ''KEY_MUTE'' 5"

definition f_send_standby_key :: "env \<Rightarrow> device \<Rightarrow> world \<Rightarrow> bool \<times> world" where
  "f_send_standby_key e dev = send_then_sleep e dev ''26'' ''KEY_STANDBY'' 10"

definition f_send_wake_up_key :: "env \<Rightarrow> device \<Rightarrow> world \<Rightarrow> bool \<times> world" where
  "f_send_wake_up_key e dev = send_then_sleep e dev ''224'' ''KEY_WAKEUP'' 20"

subsection \<open>Opening applications\<close>

text \<open>The launchers catch \<^verbatim>\<open>subprocess.SubprocessError\<close> only (\<^verbatim>\<open>CalledProcessError\<close> and
  \<^verbatim>\<open>TimeoutExpired\<close>); any other exception leaves the function.\<close>

definition is_subprocess_error :: "exn \<Rightarrow> bool" where
  "is_subprocess_error x = (x = CalledProcessError \<or> x = TimeoutExpired)"

definition f_send_flow_key :: "env \<Rightarrow> device \<Rightarrow> world \<Rightarrow> bool result \<times> world" where
  "f_send_flow_key e dev w =
     (case subprocess_run e
             (AmStart dev ''ar.com.flow.androidtv_stb/ar.com.flow.androidtv.base.view.BaseActivity''
                ''android.intent.category.LEANBACK_LAUNCHER'') w of
        (Completed out, w1) \<Rightarrow> (Return True, sleep 15 (f_log ''KEY_APP sent successfully'' [] w1))
      | (Failed x, w1) \<Rightarrow>
          (if is_subprocess_error x
           then (Return False, f_log ''Error opening APP: {}'' [E x] w1)
           else (Raise x, w1)))"

text \<open>\<^verbatim>\<open>str.strip()\<close>: the whitespace code points below 256.\<close>

definition is_space :: "char \<Rightarrow> bool" where
  "is_space c =
     (let n = (of_char c :: nat)
      in (9 \<le> n \<and> n \<le> 13) \<or> (28 \<le> n \<and> n \<le> 32) \<or> n = 133 \<or> n = 160)"

definition strip :: "string \<Rightarrow> string" where
  "strip s = rev (dropWhile is_space (rev (dropWhile is_space s)))"

definition f_open_app :: "env \<Rightarrow> device \<Rightarrow> string \<Rightarrow> string \<Rightarrow> world \<Rightarrow> bool result \<times> world" where
  "f_open_app e dev package description w =
     (case subprocess_run e (Monkey dev package ''android.intent.category.LAUNCHER'') w of
        (Completed out, w1) \<Rightarrow>
          (Return True, sleep 30 (f_log ''{} opened successfully'' [S (strip description)] w1))
      | (Failed x, w1) \<Rightarrow>
          (if is_subprocess_error x
           then (Return False, f_log ''Error opening {}: {}'' [S (strip description), E x] w1)
           else (Raise x, w1)))"

definition f_open_app_secondary ::
  "env \<Rightarrow> device \<Rightarrow> string \<Rightarrow> string \<Rightarrow> world \<Rightarrow> bool result \<times> world" where
  "f_open_app_secondary e dev package description w =
     (case subprocess_run e (Monkey dev package ''android.intent.category.LEANBACK_LAUNCHER'') w of
        (Completed out, w1) \<Rightarrow>
          (Return True, sleep 30 (f_log ''{} opened successfully'' [S description] w1))
      | (Failed x, w1) \<Rightarrow>
          (if is_subprocess_error x
           then (Return False, f_log ''Error opening {}: {}'' [S description, E x] w1)
           else (Raise x, w1)))"

subsection \<open>Wrapper steps of the navigation and application tests\<close>

text \<open>The local functions of \<^verbatim>\<open>f_test_navigation_project3\<close> and \<^verbatim>\<open>f_test_apps\<close> that stand in
  their step lists: \<^verbatim>\<open>time.sleep(5); return self.f_send_flow_key(device)\<close>, and
  \<^verbatim>\<open>self.f_send_home_key(device); return self.f_open_app(device, package, name)\<close>.\<close>

definition send_flow_with_navigation :: "env \<Rightarrow> device \<Rightarrow> world \<Rightarrow> bool result \<times> world" where
  "send_flow_with_navigation e d w = f_send_flow_key e d (sleep 5 w)"

definition open_netflix :: "env \<Rightarrow> device \<Rightarrow> world \<Rightarrow> bool result \<times> world" where
  "open_netflix e d w =
     f_open_app e d ''com.netflix.ninja'' ''Netflix'' (snd (f_send_home_key e d w))"

definition open_amazon :: "env \<Rightarrow> device \<Rightarrow> world \<Rightarrow> bool result \<times> world" where
  "open_amazon e d w =
     f_open_app_secondary e d ''com.amazon.amazonvideo.livingroom'' ''Amazon Prime''
       (snd (f_send_home_key e d w))"

definition open_youtube :: "env \<Rightarrow> device \<Rightarrow> world \<Rightarrow> bool result \<times> world" where
  "open_youtube e d w =
     f_open_app e d ''com.google.android.youtube.tv'' ''YouTube'' (snd (f_send_home_key e d w))"

definition open_disney :: "env \<Rightarrow> device \<Rightarrow> world \<Rightarrow> bool result \<times> world" where
  "open_disney e d w =
     f_open_app e d ''com.disney.disneyplus'' ''Disney+'' (snd (f_send_home_key e d w))"

definition open_spotify :: "env \<Rightarrow> device \<Rightarrow> world \<Rightarrow> bool result \<times> world" where
  "open_spotify e d w =
     f_open_app e d ''com.spotify.tv.android'' ''Spotify'' (snd (f_send_home_key e d w))"

definition open_max :: "env \<Rightarrow> device \<Rightarrow> world \<Rightarrow> bool result \<times> world" where
  "open_max e d w =
     f_open_app_secondary e d ''com.wbd.stream'' ''Max'' (snd (f_send_home_key e d w))"

subsection \<open>Connecting\<close>

text \<open>\<^verbatim>\<open>f_connect_device\<close> catches \<^verbatim>\<open>CalledProcessError\<close> only. It sleeps 10 seconds
  on every path that returns.\<close>

definition f_connect_device ::
  "env \<Rightarrow> string option \<Rightarrow> int \<Rightarrow> world \<Rightarrow> device option result \<times> world" where
  "f_connect_device e ip0 port0 w =
     (let dev = (str_opt ip0, port0) in
      case subprocess_run e (Connect dev) w of
        (Completed out, w1) \<Rightarrow>
          (let output = lower (strip out) in
           if contains output ''connected'' \<or> contains output ''already connected''
           then (Return (Some dev), sleep 10 (f_log ''Successfully connected: {}'' [S output] w1))
           else (Return None,
                 clear_screen (sleep 10 (print ''ADB CONNECTION FAILED'' [S (fst dev), I (snd dev), S output]
                   (f_log ''Failed to connect: {}'' [S output] w1)))))
      | (Failed x, w1) \<Rightarrow>
          (if x = CalledProcessError
           then (Return None,
                 clear_screen (sleep 10 (print ''ADB COMMAND ERROR'' []
                   (f_log ''Connection error: {}'' [] w1))))
           else (Raise x, w1)))"

definition f_is_device_ready :: "env \<Rightarrow> device \<Rightarrow> world \<Rightarrow> bool \<times> world" where
  "f_is_device_ready e dev w =
     (case subprocess_run e (GetState dev) w of
        (Completed out, w1) \<Rightarrow> (strip out = ''device'', w1)
      | (Failed x, w1) \<Rightarrow> (False, w1))"

lemma clock_f_connect_device:
  "fst (f_connect_device e ip0 port0 w) = Return d \<Longrightarrow>
   clock w + 10 \<le> clock (snd (f_connect_device e ip0 port0 w))"
  by (auto simp: f_connect_device_def subprocess_run_def Let_def sleep_def f_log_def print_def
        clear_screen_def split: prod.splits proc.splits if_splits)

lemma clock_f_is_device_ready: "clock w \<le> clock (snd (f_is_device_ready e dev w))"
  by (simp add: f_is_device_ready_def subprocess_run_def Let_def split: prod.splits proc.splits)

lemma clock_f_send_key: "clock w \<le> clock (snd (f_send_key e dev c n w))"
  by (simp add: f_send_key_def subprocess_run_def Let_def sleep_def f_log_def
        split: prod.splits proc.splits)

lemma clock_send_then_sleep: "clock w \<le> clock (snd (send_then_sleep e dev c n d w))"
  using clock_f_send_key [of w e dev c n]
  by (auto simp: send_then_sleep_def sleep_def split: prod.splits bool.splits)

lemma clock_sleep_then_send: "clock w + int d \<le> clock (snd (sleep_then_send e dev c n d w))"
  using clock_f_send_key [of "sleep d w" e dev c n]
  by (simp add: sleep_then_send_def sleep_def)

subsection \<open>Reconnection\<close>

text \<open>One iteration of the \<^verbatim>\<open>while True\<close> loop of \<^verbatim>\<open>f_reconnect_and_reinitialize\<close>.\<close>

definition reconnect_iter ::
  "env \<Rightarrow> string option \<Rightarrow> int \<Rightarrow> int \<Rightarrow> int \<Rightarrow> world \<Rightarrow> ((device \<times> bool) result \<times> world) flow" where
  "reconnect_iter e ip0 port0 initial_time duration w =
     (case time_time w of
        (now, w1) \<Rightarrow>
          if now - initial_time \<ge> duration then
            Break (Exit 0,
                   f_log ''Maximum execution time reached = {} during reconnection.'' [I duration] w1)
          else
            (case f_connect_device e ip0 port0 w1 of
               (Exit n, w2) \<Rightarrow> Break (Exit n, w2)
             | (Raise x, w2) \<Rightarrow> Break (Raise x, w2)
             | (Return None, w2) \<Rightarrow>
                 Continue (sleep 5
                   (f_log ''Reconnection not yet possible. Trying again in 5s...'' [] w2))
             | (Return (Some new_device), w2) \<Rightarrow>
                 (case f_is_device_ready e new_device w2 of
                    (False, w3) \<Rightarrow>
                      Continue (sleep 5
                        (f_log ''Reconnection not yet possible. Trying again in 5s...'' [] w3))
                  | (True, w3) \<Rightarrow>
                      (case f_send_home_key e new_device
                              (sleep 30
                                 (f_log ''Reconnection successful! Restarting command sequence...''
                                    [] w3)) of
                         (True, w4) \<Rightarrow>
                           Break (Return (new_device, True), w4\<lparr>error_already_shown := False\<rparr>)
                       | (False, w4) \<Rightarrow>
                           Continue
                             (f_log ''Failed to resend commands after reconnection.'' [] w4)))))"

lemma reconnect_iter_Continue:
  "reconnect_iter e ip0 port0 initial_time duration w = Continue w1 \<Longrightarrow>
   clock w - initial_time < duration \<and> clock w + 10 \<le> clock w1"
proof -
  assume a: "reconnect_iter e ip0 port0 initial_time duration w = Continue w1"
  let ?w1 = "snd (time_time w)"
  let ?c = "f_connect_device e ip0 port0 ?w1"
  have t: "clock ?w1 = clock w" by (simp add: time_time_def)
  from a have lt: "clock w - initial_time < duration"
    by (auto simp: reconnect_iter_def time_time_def split: if_splits)
  from a obtain d where d: "fst ?c = Return d"
    by (cases "fst ?c")
       (auto simp: reconnect_iter_def time_time_def split: if_splits prod.splits)
  have c10: "clock w + 10 \<le> clock (snd ?c)"
    using clock_f_connect_device [OF d] t by simp
  have "clock (snd ?c) \<le> clock w1"
  proof (cases d)
    case None
    with a d show ?thesis
      by (auto simp: reconnect_iter_def time_time_def sleep_def f_log_def
            split: if_splits prod.splits)
  next
    case (Some nd)
    let ?r = "f_is_device_ready e nd (snd ?c)"
    let ?w3 = "sleep 30 (f_log ''Reconnection successful! Restarting command sequence...'' [] (snd ?r))"
    have r: "clock (snd ?c) \<le> clock (snd ?r)" by (rule clock_f_is_device_ready)
    have h: "clock ?w3 \<le> clock (snd (f_send_home_key e nd ?w3))"
      unfolding f_send_home_key_def by (rule clock_send_then_sleep)
    have w3: "clock (snd ?r) \<le> clock ?w3" by (simp add: sleep_def f_log_def)
    from a d Some show ?thesis
      using r h w3
      by (auto simp: reconnect_iter_def time_time_def sleep_def f_log_def
            split: if_splits prod.splits bool.splits)
  qed
  with lt c10 show ?thesis by simp
qed

function reconnect_loop ::
  "env \<Rightarrow> string option \<Rightarrow> int \<Rightarrow> int \<Rightarrow> int \<Rightarrow> world \<Rightarrow> (device \<times> bool) result \<times> world" where
  "reconnect_loop e ip0 port0 initial_time duration w =
     (case reconnect_iter e ip0 port0 initial_time duration w of
        Break r \<Rightarrow> r
      | Continue w1 \<Rightarrow> reconnect_loop e ip0 port0 initial_time duration w1)"
  by pat_completeness auto
termination
proof (relation "measure (\<lambda>(e, ip0, port0, initial_time, duration, w).
                   nat (initial_time + duration - clock w))", goal_cases)
  case 1
  show ?case by simp
next
  case (2 e ip0 port0 initial_time duration w w1)
  then show ?case
    using reconnect_iter_Continue [of e ip0 port0 initial_time duration w w1] by simp
qed

definition f_reconnect_and_reinitialize ::
  "env \<Rightarrow> string option \<Rightarrow> int \<Rightarrow> int \<Rightarrow> int \<Rightarrow> world \<Rightarrow> (device \<times> bool) result \<times> world" where
  "f_reconnect_and_reinitialize e ip0 port0 initial_time duration w =
     reconnect_loop e ip0 port0 initial_time duration
       (f_log ''Attempting device reconnection...'' [] w)"

text \<open>One iteration of the loop of \<^verbatim>\<open>f_reconnect_and_reinitialize_project1\<close>: HOME, then
  GUIDE and BACK (their results unused), and \<^verbatim>\<open>time.sleep(5)\<close> at the end of every
  iteration that does not return.\<close>

definition reconnect_iter_project1 ::
  "env \<Rightarrow> string option \<Rightarrow> int \<Rightarrow> int \<Rightarrow> int \<Rightarrow> world \<Rightarrow> ((device \<times> bool) result \<times> world) flow" where
  "reconnect_iter_project1 e ip0 port0 initial_time duration w =
     (case time_time w of
        (now, w1) \<Rightarrow>
          if now - initial_time \<ge> duration then
            Break (Exit 0, f_log ''Maximum execution time reached during reconnection.'' [] w1)
          else
            (case f_connect_device e ip0 port0 w1 of
               (Exit n, w2) \<Rightarrow> Break (Exit n, w2)
             | (Raise x, w2) \<Rightarrow> Break (Raise x, w2)
             | (Return None, w2) \<Rightarrow>
                 Continue (sleep 5
                   (f_log ''Reconnection not yet possible. Trying again in 5s...'' [] w2))
             | (Return (Some new_device), w2) \<Rightarrow>
                 (case f_is_device_ready e new_device w2 of
                    (False, w3) \<Rightarrow>
                      Continue (sleep 5
                        (f_log ''Reconnection not yet possible. Trying again in 5s...'' [] w3))
                  | (True, w3) \<Rightarrow>
                      (case f_send_home_key e new_device
                              (sleep 30
                                 (f_log ''Reconnection successful! Restarting Project 1 sequence...''
                                    [] w3)) of
                         (True, w4) \<Rightarrow>
                           (case f_send_guide_key e new_device w4 of
                              (g, w5) \<Rightarrow>
                                (case f_send_back_key e new_device w5 of
                                   (b, w6) \<Rightarrow>
                                     Break (Return (new_device, True),
                                            w6\<lparr>error_already_shown := False\<rparr>)))
                       | (False, w4) \<Rightarrow>
                           Continue (sleep 5
                             (f_log ''Failed to resend commands after reconnection.'' [] w4))))))"

lemma reconnect_iter_project1_Continue:
  "reconnect_iter_project1 e ip0 port0 initial_time duration w = Continue w1 \<Longrightarrow>
   clock w - initial_time < duration \<and> clock w + 10 \<le> clock w1"
proof -
  assume a: "reconnect_iter_project1 e ip0 port0 initial_time duration w = Continue w1"
  let ?w1 = "snd (time_time w)"
  let ?c = "f_connect_device e ip0 port0 ?w1"
  have t: "clock ?w1 = clock w" by (simp add: time_time_def)
  from a have lt: "clock w - initial_time < duration"
    by (auto simp: reconnect_iter_project1_def time_time_def split: if_splits)
  from a obtain d where d: "fst ?c = Return d"
    by (cases "fst ?c")
       (auto simp: reconnect_iter_project1_def time_time_def split: if_splits prod.splits)
  have c10: "clock w + 10 \<le> clock (snd ?c)"
    using clock_f_connect_device [OF d] t by simp
  have "clock (snd ?c) \<le> clock w1"
  proof (cases d)
    case None
    with a d show ?thesis
      by (auto simp: reconnect_iter_project1_def time_time_def sleep_def f_log_def
            split: if_splits prod.splits)
  next
    case (Some nd)
    let ?r = "f_is_device_ready e nd (snd ?c)"
    let ?w3 = "sleep 30 (f_log ''Reconnection successful! Restarting Project 1 sequence...'' [] (snd ?r))"
    have r: "clock (snd ?c) \<le> clock (snd ?r)" by (rule clock_f_is_device_ready)
    have h: "clock ?w3 \<le> clock (snd (f_send_home_key e nd ?w3))"
      unfolding f_send_home_key_def by (rule clock_send_then_sleep)
    have w3: "clock (snd ?r) \<le> clock ?w3" by (simp add: sleep_def f_log_def)
    from a d Some show ?thesis
      using r h w3
      by (auto simp: reconnect_iter_project1_def time_time_def sleep_def f_log_def
            split: if_splits prod.splits bool.splits)
  qed
  with lt c10 show ?thesis by simp
qed

function reconnect_loop_project1 ::
  "env \<Rightarrow> string option \<Rightarrow> int \<Rightarrow> int \<Rightarrow> int \<Rightarrow> world \<Rightarrow> (device \<times> bool) result \<times> world" where
  "reconnect_loop_project1 e ip0 port0 initial_time duration w =
     (case reconnect_iter_project1 e ip0 port0 initial_time duration w of
        Break r \<Rightarrow> r
      | Continue w1 \<Rightarrow> reconnect_loop_project1 e ip0 port0 initial_time duration w1)"
  by pat_completeness auto
termination
proof (relation "measure (\<lambda>(e, ip0, port0, initial_time, duration, w).
                   nat (initial_time + duration - clock w))", goal_cases)
  case 1
  show ?case by simp
next
  case (2 e ip0 port0 initial_time duration w w1)
  then show ?case
    using reconnect_iter_project1_Continue [of e ip0 port0 initial_time duration w w1] by simp
qed

definition f_reconnect_and_reinitialize_project1 ::
  "env \<Rightarrow> string option \<Rightarrow> int \<Rightarrow> int \<Rightarrow> int \<Rightarrow> world \<Rightarrow> (device \<times> bool) result \<times> world" where
  "f_reconnect_and_reinitialize_project1 e ip0 port0 initial_time duration w =
     reconnect_loop_project1 e ip0 port0 initial_time duration
       (f_log ''Attempting device reconnection (Project 1)...'' [] w)"

subsection \<open>One step of a pass\<close>

text \<open>A step function of a test's list: it takes the device and returns a truth value
  (or raises, as the application launchers can).\<close>

type_synonym step = "device \<Rightarrow> world \<Rightarrow> bool result \<times> world"

definition key_step :: "(device \<Rightarrow> world \<Rightarrow> bool \<times> world) \<Rightarrow> step" where
  "key_step f dev w = (case f dev w of (b, w1) \<Rightarrow> (Return b, w1))"

text \<open>The first statement of both checkers:
  \<^verbatim>\<open>if self.f_is_in_standby(device): self.f_wait_standby_exit(device, initial_time, duration)\<close>.\<close>

definition check_standby :: "env \<Rightarrow> device \<Rightarrow> int \<Rightarrow> int \<Rightarrow> world \<Rightarrow> unit result \<times> world" where
  "check_standby e dev initial_time duration w =
     (case f_is_in_standby e dev w of
        (True, w1) \<Rightarrow> f_wait_standby_exit e dev initial_time duration w1
      | (False, w1) \<Rightarrow> (Return (), w1))"

definition f_check_and_send ::
  "env \<Rightarrow> step \<Rightarrow> device \<Rightarrow> string option \<Rightarrow> int \<Rightarrow> int \<Rightarrow> int \<Rightarrow> world
     \<Rightarrow> (device \<times> bool) result \<times> world" where
  "f_check_and_send e func dev ip0 port0 initial_time duration w =
     (case check_standby e dev initial_time duration w of
        (Exit n, w1) \<Rightarrow> (Exit n, w1)
      | (Raise x, w1) \<Rightarrow> (Raise x, w1)
      | (Return u, w1) \<Rightarrow>
          (case func dev w1 of
             (Exit n, w2) \<Rightarrow> (Exit n, w2)
           | (Raise x, w2) \<Rightarrow> (Raise x, w2)
           | (Return ok, w2) \<Rightarrow>
               if \<not> ok then f_reconnect_and_reinitialize e ip0 port0 initial_time duration w2
               else (Return (dev, False), w2)))"

definition f_check_and_send_project1 ::
  "env \<Rightarrow> step \<Rightarrow> device \<Rightarrow> string option \<Rightarrow> int \<Rightarrow> int \<Rightarrow> int \<Rightarrow> world
     \<Rightarrow> (device \<times> bool) result \<times> world" where
  "f_check_and_send_project1 e func dev ip0 port0 initial_time duration w =
     (case check_standby e dev initial_time duration w of
        (Exit n, w1) \<Rightarrow> (Exit n, w1)
      | (Raise x, w1) \<Rightarrow> (Raise x, w1)
      | (Return u, w1) \<Rightarrow>
          (case func dev w1 of
             (Exit n, w2) \<Rightarrow> (Exit n, w2)
           | (Raise x, w2) \<Rightarrow> (Raise x, w2)
           | (Return ok, w2) \<Rightarrow>
               if \<not> ok then f_reconnect_and_reinitialize_project1 e ip0 port0 initial_time duration w2
               else (Return (dev, False), w2)))"

subsection \<open>The test loop\<close>

text \<open>The local variables of a test function, with \<^verbatim>\<open>self.device\<close>.\<close>

record locals =
  dev :: device
  loop :: int
  need_initial_sequence :: bool
  reconnected :: bool

text \<open>The checker a test uses: \<^verbatim>\<open>f_check_and_send\<close> or \<^verbatim>\<open>f_check_and_send_project1\<close>,
  already given \<^verbatim>\<open>self.ip\<close>, \<^verbatim>\<open>self.port\<close>, \<^verbatim>\<open>initial_time\<close> and \<^verbatim>\<open>duration\<close>.\<close>

type_synonym checker = "step \<Rightarrow> device \<Rightarrow> world \<Rightarrow> (device \<times> bool) result \<times> world"

text \<open>The \<^verbatim>\<open>for func in [...]\<close> loop with its \<^verbatim>\<open>break\<close>.\<close>

fun for_steps :: "checker \<Rightarrow> step list \<Rightarrow> locals \<Rightarrow> world \<Rightarrow> unit result \<times> locals \<times> world" where
  "for_steps cas [] l w = (Return (), l, w)"
| "for_steps cas (func # funcs) l w =
     (case cas func (dev l) w of
        (Exit n, w1) \<Rightarrow> (Exit n, l, w1)
      | (Raise x, w1) \<Rightarrow> (Raise x, l, w1)
      | (Return (d, r), w1) \<Rightarrow>
          (let l1 = l\<lparr>dev := d, reconnected := r\<rparr> in
           if r then
             (Return (),
              l1\<lparr>loop := 0, need_initial_sequence := True\<rparr>,
              f_log ''RECONNECTION DETECTED - RESTARTING TEST FROM BEGINNING'' [] w1)
           else for_steps cas funcs l1 w1))"

text \<open>The body of the \<^verbatim>\<open>while\<close> loop: the initial sequence when it is due, one pass over
  the step list, and the loop counter.\<close>

definition pass ::
  "(device \<Rightarrow> world \<Rightarrow> unit result \<times> world) \<Rightarrow> checker \<Rightarrow> step list \<Rightarrow> locals \<Rightarrow> world
     \<Rightarrow> unit result \<times> locals \<times> world" where
  "pass init cas funcs l w =
     (case (if need_initial_sequence l then init (dev l) w else (Return (), w)) of
        (Exit n, w1) \<Rightarrow> (Exit n, l, w1)
      | (Raise x, w1) \<Rightarrow> (Raise x, l, w1)
      | (Return u, w1) \<Rightarrow>
          (case for_steps cas funcs (l\<lparr>need_initial_sequence := False, reconnected := False\<rparr>) w1 of
             (Exit n, l2, w2) \<Rightarrow> (Exit n, l2, w2)
           | (Raise x, l2, w2) \<Rightarrow> (Raise x, l2, w2)
           | (Return u, l2, w2) \<Rightarrow>
               if \<not> reconnected l2 then
                 (Return (), l2\<lparr>loop := loop l2 + 1\<rparr>,
                  f_log ''LOOP {} CONCLUDED'' [I (loop l2 + 1)] w2)
               else (Return (), l2, w2)))"

text \<open>The \<^verbatim>\<open>while time.time() - initial_time < duration\<close> loop. A pass over an empty step
  list takes no time in the model, so the loop is partial: \<open>None\<close> is a run that never
  ends.\<close>

partial_function (option) test_loop ::
  "(device \<Rightarrow> world \<Rightarrow> unit result \<times> world) \<Rightarrow> checker \<Rightarrow> step list \<Rightarrow> int \<Rightarrow> int \<Rightarrow> locals
     \<Rightarrow> world \<Rightarrow> (unit result \<times> locals \<times> world) option" where
  "test_loop init cas funcs initial_time duration l w =
     (let t = time_time w in
      if fst t - initial_time < duration then
        (case pass init cas funcs l (snd t) of
           (Exit n, l1, w1) \<Rightarrow> Some (Exit n, l1, w1)
         | (Raise x, l1, w1) \<Rightarrow> Some (Raise x, l1, w1)
         | (Return u, l1, w1) \<Rightarrow> test_loop init cas funcs initial_time duration l1 w1)
      else Some (Return (), l, snd t))"

declare test_loop.simps [code]

subsection \<open>Operator input\<close>

text \<open>\<^verbatim>\<open>input()\<close>: the next line the operator types, or \<^verbatim>\<open>EOFError\<close>.\<close>

definition input :: "env \<Rightarrow> world \<Rightarrow> string result \<times> world" where
  "input e w =
     (case stdin e (inputs_read w) of
        None \<Rightarrow> (Raise EOFError, w\<lparr>inputs_read := Suc (inputs_read w)\<rparr>)
      | Some line \<Rightarrow>
          (Return line, w\<lparr>inputs_read := Suc (inputs_read w), trace := Input line # trace w\<rparr>))"

text \<open>\<^verbatim>\<open>.replace(" ", "_")\<close>.\<close>

definition replace_spaces :: "string \<Rightarrow> string" where
  "replace_spaces s = map (\<lambda>c. if c = CHR '' '' then CHR ''_'' else c) s"

text \<open>The log name \<^verbatim>\<open>f_setup_logging\<close> settles on, before the length check.\<close>

definition log_name_of :: "string \<Rightarrow> string \<Rightarrow> string" where
  "log_name_of test_name line =
     (let log_name = replace_spaces (strip line)
      in if log_name = [] then ''log_'' @ lower test_name else log_name)"

definition f_setup_logging :: "env \<Rightarrow> string \<Rightarrow> world \<Rightarrow> bool \<times> world" where
  "f_setup_logging e test_name w =
     (case input e w of
        (Return line, w1) \<Rightarrow>
          (let log_name = log_name_of test_name line in
           if length log_name > 50 then
             (False, clear_screen (sleep 5 (print ''LOG NAME TOO LONG'' [I (int (length log_name))] w1)))
           else
             (True,
              w1\<lparr>log_path := Some (''logs_stb/'' @ log_name @ ''_'' @ strftime e (clock w1) @ ''.txt'')\<rparr>))
      | (Raise x, w1) \<Rightarrow> (False, clear_screen (sleep 5 (print ''LOG SETUP ERROR'' [] w1)))
      | (Exit n, w1) \<Rightarrow> (False, w1))"

text \<open>\<^verbatim>\<open>int(s)\<close> on a string: optional sign, then decimal digits, single underscores
  allowed between digits; \<open>None\<close> is the \<^verbatim>\<open>ValueError\<close> "invalid literal".\<close>

definition is_digit :: "char \<Rightarrow> bool" where
  "is_digit c = (let n = (of_char c :: nat) in 48 \<le> n \<and> n \<le> 57)"

fun parse_digits :: "nat \<Rightarrow> bool \<Rightarrow> string \<Rightarrow> nat option" where
  "parse_digits acc prev_digit [] = (if prev_digit then Some acc else None)"
| "parse_digits acc prev_digit (c # cs) =
     (if is_digit c then parse_digits (10 * acc + (of_char c - 48)) True cs
      else if c = CHR ''_'' \<and> prev_digit then parse_digits acc False cs
      else None)"

definition py_int :: "string \<Rightarrow> int option" where
  "py_int s =
     (case strip s of
        [] \<Rightarrow> None
      | c # cs \<Rightarrow>
          if c = CHR ''-'' then map_option (\<lambda>n. - int n) (parse_digits 0 False cs)
          else if c = CHR ''+'' then map_option int (parse_digits 0 False cs)
          else map_option int (parse_digits 0 False (c # cs)))"

text \<open>\<^verbatim>\<open>f_list_connected_devices\<close> runs \<^verbatim>\<open>adb devices\<close>, prints a table, and catches every
  exception; its result is not used.\<close>

definition f_list_connected_devices :: "env \<Rightarrow> world \<Rightarrow> world" where
  "f_list_connected_devices e w =
     (case subprocess_run e Devices w of
        (Completed out, w1) \<Rightarrow> print ''CONNECTED ADB DEVICES'' [S (strip out)] w1
      | (Failed x, w1) \<Rightarrow> print ''ADB COMMAND ERROR'' [E x] w1)"

text \<open>The handler \<^verbatim>\<open>except ValueError as e\<close> of \<^verbatim>\<open>f_get_connection_info\<close>.\<close>

definition input_error :: "string \<Rightarrow> world \<Rightarrow> int option result \<times> world" where
  "input_error msg w = (Return None, clear_screen (sleep 10 (print ''INPUT ERROR'' [S msg] w)))"

text \<open>The branch \<^verbatim>\<open>duration_input == '3'\<close>, from the line the operator typed.\<close>

definition custom_duration :: "string \<Rightarrow> world \<Rightarrow> int option result \<times> world" where
  "custom_duration line w =
     (let custom_duration_input = strip line in
      if custom_duration_input = [] then input_error ''Custom duration cannot be empty!'' w
      else
        (case py_int custom_duration_input of
           None \<Rightarrow> input_error ''Custom duration must be a valid positive integer'' w
         | Some duration \<Rightarrow>
             if duration \<le> 0 then input_error ''Duration must be a positive number'' w
             else if duration > 432000 then input_error ''Max duration of 120 hours / 5 days'' w
             else (Return (Some duration), w)))"

definition f_get_connection_info :: "env \<Rightarrow> world \<Rightarrow> int option result \<times> world" where
  "f_get_connection_info e w =
     (case input e (f_list_connected_devices e w) of
        (Exit n, w1) \<Rightarrow> (Exit n, w1)
      | (Raise x, w1) \<Rightarrow> (Raise x, w1)
      | (Return line1, w1) \<Rightarrow>
          (let w2 = w1\<lparr>ip := Some (strip line1)\<rparr> in
           if strip line1 = [] then input_error ''IP address cannot be empty'' w2
           else
             (case input e (print ''SELECT THE DURATION OF THE TEST!'' [] (w2\<lparr>port := 5555\<rparr>)) of
                (Exit n, w3) \<Rightarrow> (Exit n, w3)
              | (Raise x, w3) \<Rightarrow> (Raise x, w3)
              | (Return line2, w3) \<Rightarrow>
                  (let duration_input = strip line2 in
                   if duration_input = [] then input_error ''Duration cannot be empty!'' w3
                   else if duration_input = ''1'' then (Return (Some (12 * 60 * 60)), w3)
                   else if duration_input = ''2'' then (Return (Some (24 * 60 * 60)), w3)
                   else if duration_input = ''3'' then
                     (case input e w3 of
                        (Exit n, w4) \<Rightarrow> (Exit n, w4)
                      | (Raise x, w4) \<Rightarrow> (Raise x, w4)
                      | (Return line3, w4) \<Rightarrow> custom_duration line3 w4)
                   else input_error ''Invalid Option!'' w3))))"

subsection \<open>Initialising the device\<close>

text \<open>The nine commands of the seven methods of \<^verbatim>\<open>f_disable_cec\<close>, each in its own
  \<^verbatim>\<open>try\<close> with a bare \<^verbatim>\<open>except\<close>: the command, and the name logged with its outcome.\<close>

definition cec_methods :: "device \<Rightarrow> (adb_cmd \<times> string) list" where
  "cec_methods d =
     [(SettingsPut d ''global'' ''hdmi_control_enabled'' ''0'', ''Method 1: Global HDMI control''),
      (SettingsPut d ''global'' ''hdmi_volume_use_cec'' ''0'', ''Method 1: Global HDMI volume CEC''),
      (SettingsPut d ''secure'' ''hdmi_control_enabled'' ''0'', ''Method 2: Secure HDMI control''),
      (SettingsPut d ''secure'' ''hdmi_volume_use_cec'' ''0'', ''Method 2: Secure HDMI volume CEC''),
      (SettingsPut d ''system'' ''hdmi_control_enabled'' ''0'', ''Method 3: System HDMI control''),
      (SetProp d ''ro.hdmi.device_type'' ''0'', ''Method 4: HDMI device type property''),
      (CecSetting d, ''Method 5: CEC service control''),
      (SettingsPut d ''global'' ''hdmi_cec_enabled'' ''0'', ''Method 6: Alternative CEC setting''),
      (SettingsPut d ''secure'' ''tv_input_hidden_inputs'' ''1'', ''Method 7: TV input service'')]"

fun run_cec :: "env \<Rightarrow> (adb_cmd \<times> string) list \<Rightarrow> nat \<Rightarrow> world \<Rightarrow> nat \<times> world" where
  "run_cec e [] success_count w = (success_count, w)"
| "run_cec e ((c, name) # ms) success_count w =
     (case subprocess_run e c w of
        (Completed out, w1) \<Rightarrow> run_cec e ms (success_count + 1) (f_log ''{} disabled'' [S name] w1)
      | (Failed x, w1) \<Rightarrow> run_cec e ms success_count (f_log ''{} - FAILED'' [S name] w1))"

definition f_disable_cec :: "env \<Rightarrow> device \<Rightarrow> world \<Rightarrow> bool \<times> world" where
  "f_disable_cec e d w =
     (case run_cec e (cec_methods d) 0 (f_log ''Disabling CEC (Consumer Electronics Control)'' [] w) of
        (success_count, w1) \<Rightarrow>
          if success_count > 0 then
            (True, sleep 5 (f_log ''CEC disable completed: {}/7 methods successful'' [I (int success_count)] w1))
          else (False, sleep 5 (f_log ''CEC disable failed: All methods unsuccessful'' [] w1)))"

text \<open>\<^verbatim>\<open>f_initialize_device\<close>: the result is \<^verbatim>\<open>self.device\<close> when it returns \<^verbatim>\<open>True\<close>, and
  \<open>None\<close> when it returns \<^verbatim>\<open>False\<close>.\<close>

definition connection_error :: "world \<Rightarrow> device option result \<times> world" where
  "connection_error w = (Return None, clear_screen (sleep 10 (print ''CONNECTION ERROR'' [] w)))"

definition f_initialize_device :: "env \<Rightarrow> world \<Rightarrow> device option result \<times> world" where
  "f_initialize_device e w =
     (case f_connect_device e (ip w) (port w) w of
        (Exit n, w1) \<Rightarrow> (Exit n, w1)
      | (Raise x, w1) \<Rightarrow> (Raise x, w1)
      | (Return None, w1) \<Rightarrow> connection_error w1
      | (Return (Some d), w1) \<Rightarrow>
          (case f_is_device_ready e d w1 of
             (False, w2) \<Rightarrow> connection_error w2
           | (True, w2) \<Rightarrow> (Return (Some d), snd (f_disable_cec e d w2))))"

subsection \<open>The standard zapping test\<close>

definition zapping_standard_init :: "env \<Rightarrow> device \<Rightarrow> world \<Rightarrow> unit result \<times> world" where
  "zapping_standard_init e d w =
     (let w1 = f_log ''=== EXECUTING INITIAL SEQUENCE ==='' [] w;
          w2 = sleep 5 (snd (f_send_home_key e d w1));
          w3 = sleep 5 (snd (f_send_live_key e d w2))
      in case f_send_flow_key e d w3 of
           (Exit n, w4) \<Rightarrow> (Exit n, w4)
         | (Raise x, w4) \<Rightarrow> (Raise x, w4)
         | (Return b, w4) \<Rightarrow> (Return (), f_log ''=== INITIAL SEQUENCE COMPLETED ==='' [] w4))"

definition zapping_steps :: "env \<Rightarrow> step list" where
  "zapping_steps e =
     [key_step (f_send_channelUP_key e), key_step (f_send_channelUP_key e),
      key_step (f_send_channelDOWN_key e), key_step (f_send_channelUP_key e),
      key_step (f_send_channelDOWN_key e)]"

text \<open>The \<^verbatim>\<open>try\<close> around the loop catches \<^verbatim>\<open>Exception\<close>: a raise is logged and the test
  ends normally; \<^verbatim>\<open>sys.exit\<close> passes through.\<close>

definition zapping_standard_run ::
  "env \<Rightarrow> int \<Rightarrow> device \<Rightarrow> world \<Rightarrow> (unit result \<times> world) option" where
  "zapping_standard_run e duration d w =
     (let t = time_time w;
          initial_time = fst t;
          w1 = (snd t)\<lparr>error_already_shown := False\<rparr>
      in case test_loop (zapping_standard_init e)
                (\<lambda>func dv. f_check_and_send e func dv (ip w1) (port w1) initial_time duration)
                (zapping_steps e) initial_time duration
                \<lparr>dev = d, loop = 0, need_initial_sequence = True, reconnected = False\<rparr> w1 of
           None \<Rightarrow> None
         | Some (Exit n, l, w2) \<Rightarrow> Some (Exit n, w2)
         | Some (Raise x, l, w2) \<Rightarrow>
             Some (Return (),
                   f_log ''Standard Zapping Test of {} seconds completed.'' [I duration]
                     (f_log ''Execution terminated by fatal error: {}'' [E x] w2))
         | Some (Return u, l, w2) \<Rightarrow>
             Some (Return (), f_log ''Standard Zapping Test of {} seconds completed.'' [I duration] w2))"

definition f_test_zapping_standard :: "env \<Rightarrow> world \<Rightarrow> (unit result \<times> world) option" where
  "f_test_zapping_standard e w =
     (let w0 = f_log ''=== STARTING STANDARD ZAPPING TEST ==='' [] w in
      if \<not> sty e then
        Some (Return (), clear_screen (sleep 10 (print ''SCREEN SESSION REQUIRED'' [] w0)))
      else
        (case f_setup_logging e ''ZAPPING_STANDARD'' w0 of
           (False, w1) \<Rightarrow> Some (Return (), w1)
         | (True, w1) \<Rightarrow>
             (case f_get_connection_info e w1 of
                (Exit n, w2) \<Rightarrow> Some (Exit n, w2)
              | (Raise x, w2) \<Rightarrow> Some (Raise x, w2)
              | (Return None, w2) \<Rightarrow> Some (Return (), w2)
              | (Return (Some duration), w2) \<Rightarrow>
                  (case f_initialize_device e w2 of
                     (Exit n, w3) \<Rightarrow> Some (Exit n, w3)
                   | (Raise x, w3) \<Rightarrow> Some (Raise x, w3)
                   | (Return None, w3) \<Rightarrow> Some (Return (), w3)
                   | (Return (Some d), w3) \<Rightarrow> zapping_standard_run e duration d w3))))"


subsection \<open>The standby and wake-up test\<close>

text \<open>What both failure branches of \<^verbatim>\<open>f_test_standby_wakeup\<close> do:
  \<^verbatim>\<open>self.device, reconnected = self.f_reconnect_and_reinitialize(...); loop = 0;
  need_initial_sequence = True; continue\<close>.\<close>

definition standby_recover ::
  "env \<Rightarrow> string option \<Rightarrow> int \<Rightarrow> int \<Rightarrow> int \<Rightarrow> locals \<Rightarrow> world \<Rightarrow> unit result \<times> locals \<times> world" where
  "standby_recover e ip0 port0 initial_time duration l w =
     (case f_reconnect_and_reinitialize e ip0 port0 initial_time duration w of
        (Exit n, w1) \<Rightarrow> (Exit n, l, w1)
      | (Raise x, w1) \<Rightarrow> (Raise x, l, w1)
      | (Return (d, r), w1) \<Rightarrow>
          (Return (), l\<lparr>dev := d, reconnected := r, loop := 0, need_initial_sequence := True\<rparr>, w1))"

text \<open>The body of its \<^verbatim>\<open>while\<close> loop.\<close>

definition standby_pass ::
  "env \<Rightarrow> string option \<Rightarrow> int \<Rightarrow> int \<Rightarrow> int \<Rightarrow> locals \<Rightarrow> world \<Rightarrow> unit result \<times> locals \<times> world" where
  "standby_pass e ip0 port0 initial_time duration l w =
     (let w0 = (if need_initial_sequence l
                then f_log ''=== INITIAL SEQUENCE: Ready to start standby/wakeup cycle ==='' [] w
                else w);
          l0 = l\<lparr>need_initial_sequence := False\<rparr>
      in case f_send_standby_key e (dev l0) w0 of
           (False, w1) \<Rightarrow> standby_recover e ip0 port0 initial_time duration l0 w1
         | (True, w1) \<Rightarrow>
             (case f_send_wake_up_key e (dev l0) w1 of
                (False, w2) \<Rightarrow> standby_recover e ip0 port0 initial_time duration l0 w2
              | (True, w2) \<Rightarrow>
                  (Return (), l0\<lparr>loop := loop l0 + 1\<rparr>,
                   f_log ''LOOP {} CONCLUDED'' [I (loop l0 + 1)] w2)))"

section \<open>Observations on traces\<close>

text \<open>The run ended at a deadline check: the newest events are the final log line and,
  before it, a clock reading \<open>t\<close> with \<open>t - initial_time \<ge> duration\<close>.\<close>

definition deadline_exit :: "int \<Rightarrow> int \<Rightarrow> world \<Rightarrow> bool" where
  "deadline_exit initial_time duration w =
     (case trace w of
        Log msg args # Now t # rest \<Rightarrow> duration \<le> t - initial_time
      | _ \<Rightarrow> False)"

text \<open>A failure notification is a log line that starts with "Error ".\<close>

fun is_failure_log :: "event \<Rightarrow> bool" where
  "is_failure_log (Log msg args) = startswith msg ''Error ''"
| "is_failure_log ev = False"

definition failure_notifications :: "world \<Rightarrow> nat" where
  "failure_notifications w = length (filter is_failure_log (trace w))"

text \<open>The rule of the "already reported" flag for one dispatch from \<open>w\<close> to \<open>w1\<close>: a
  success clears the flag and notifies nothing; a failure leaves the flag set and notifies
  once if the flag was unset, not at all if it was set.\<close>

definition flag_rule :: "world \<Rightarrow> bool \<Rightarrow> world \<Rightarrow> bool" where
  "flag_rule w ok w1 =
     (if ok then \<not> error_already_shown w1 \<and> failure_notifications w1 = failure_notifications w
      else error_already_shown w1 \<and>
           failure_notifications w1 =
             failure_notifications w + (if error_already_shown w then 0 else 1))"

text \<open>The key dispatchers that pause after a successful send, with key code, key name and
  pause, and those that pause before sending.\<close>

definition pause_after_keys ::
  "env \<Rightarrow> ((device \<Rightarrow> world \<Rightarrow> bool \<times> world) \<times> string \<times> string \<times> nat) list" where
  "pause_after_keys e =
     [(f_send_home_key e, ''3'', ''KEY_HOME'', 10),
      (f_send_right_key e, ''22'', ''KEY_RIGHT'', 5),
      (f_send_left_key e, ''21'', ''KEY_LEFT'', 5),
      (f_send_down_key e, ''20'', ''KEY_DOWN'', 5),
      (f_send_up_key e, ''19'', ''KEY_UP'', 5),
      (f_send_ok_key e, ''23'', ''KEY_OK'', 5),
      (f_send_live_key e, ''170'', ''KEY_LIVE'', 5),
      (f_send_volume_up_key e, ''24'', ''KEY_VOLUME_UP'', 3),
      (f_send_volume_down_key e, ''25'', ''KEY_VOLUME_DOWN'', 3),
      (f_send_mute_key e, ''164'', ''KEY_MUTE'', 5),
      (f_send_standby_key e, ''26'', ''KEY_STANDBY'', 10),
      (f_send_wake_up_key e, ''224'', ''KEY_WAKEUP'', 20)]"

definition pause_before_keys ::
  "env \<Rightarrow> ((device \<Rightarrow> world \<Rightarrow> bool \<times> world) \<times> string \<times> string \<times> nat) list" where
  "pause_before_keys e =
     [(f_send_back_key e, ''4'', ''KEY_BACK'', 10),
      (f_send_guide_key e, ''172'', ''KEY_GUIDE'', 5),
      (f_send_channelUP_key e, ''166'', ''KEY_CHANNEL_UP'', 20),
      (f_send_channelDOWN_key e, ''167'', ''KEY_CHANNEL_DOWN'', 20)]"

text \<open>What \<^verbatim>\<open>f_send_key\<close> appends to the trace, newest first.\<close>

definition send_events :: "env \<Rightarrow> device \<Rightarrow> string \<Rightarrow> string \<Rightarrow> world \<Rightarrow> event list" where
  "send_events e dv code name w =
     (case outcome (adb e (adb_calls w)) of
        Completed out \<Rightarrow>
          [Log ''{} sent successfully'' [S name], Adb (KeyEvent dv code) (Completed out)]
      | Failed x \<Rightarrow>
          Sleep 5 #
          (if error_already_shown w then [] else [Log ''Error sending {}: {}'' [S name, E x]]) @
          [Adb (KeyEvent dv code) (Failed x)])"

definition send_ok :: "env \<Rightarrow> world \<Rightarrow> bool" where
  "send_ok e w = (case outcome (adb e (adb_calls w)) of Completed out \<Rightarrow> True | Failed x \<Rightarrow> False)"

text \<open>Python's \<^verbatim>\<open>str(d)\<close> for an integer: what the operator types for the number \<open>d\<close>.\<close>

definition digit_char :: "nat \<Rightarrow> char" where
  "digit_char k = char_of (48 + k)"

fun str_nat :: "nat \<Rightarrow> string" where
  "str_nat n = (if n < 10 then [digit_char n] else str_nat (n div 10) @ [digit_char (n mod 10)])"

declare str_nat.simps [simp del]

definition str_int :: "int \<Rightarrow> string" where
  "str_int d = (if d < 0 then CHR ''-'' # str_nat (nat (- d)) else str_nat (nat d))"


text \<open>The duration the custom branch settles on for the text \<open>s\<close>: the integer it
  denotes when that lies in \<open>(0, 432000]\<close>, otherwise none.\<close>

definition accepted_duration :: "string \<Rightarrow> int option" where
  "accepted_duration s =
     (case py_int s of
        None \<Rightarrow> None
      | Some d \<Rightarrow> if 0 < d \<and> d \<le> 432000 then Some d else None)"

text \<open>A reply to \<^verbatim>\<open>adb get-state\<close> that \<^verbatim>\<open>f_is_device_ready\<close> takes as ready.\<close>

definition is_ready_reply :: "proc \<Rightarrow> bool" where
  "is_ready_reply r = (case r of Completed out \<Rightarrow> strip out = ''device'' | Failed x \<Rightarrow> False)"

fun is_connect :: "event \<Rightarrow> bool" where
  "is_connect (Adb (Connect d) r) = True"
| "is_connect ev = False"

text \<open>Going back in time from an event: a successful readiness check of \<open>d\<close> is met
  before any connection attempt.\<close>

fun ready_since_connect :: "device \<Rightarrow> event list \<Rightarrow> bool" where
  "ready_since_connect d [] = False"
| "ready_since_connect d (ev # older) =
     (if is_connect ev then False
      else (case ev of
              Adb (GetState d') r \<Rightarrow> (d' = d \<and> is_ready_reply r) \<or> ready_since_connect d older
            | _ \<Rightarrow> ready_since_connect d older))"

text \<open>The newest successful HOME key on \<open>d\<close> was sent after such a readiness check.\<close>

fun reinit_after_ready :: "device \<Rightarrow> event list \<Rightarrow> bool" where
  "reinit_after_ready d [] = False"
| "reinit_after_ready d (Adb (KeyEvent d' code) (Completed out) # older) =
     (if d' = d \<and> code = ''3'' then ready_since_connect d older else reinit_after_ready d older)"
| "reinit_after_ready d (ev # older) = reinit_after_ready d older"

text \<open>The log lines with which the routines announce themselves.\<close>

definition reconnect_entry :: event where
  "reconnect_entry = Log ''Attempting device reconnection...'' []"

definition reconnect_entry_project1 :: event where
  "reconnect_entry_project1 = Log ''Attempting device reconnection (Project 1)...'' []"

text \<open>Since the routine was entered (going back from the newest event to the entry line),
  every connection attempt comes directly after a clock reading that was before the
  deadline.\<close>

fun attempts_guarded :: "event \<Rightarrow> int \<Rightarrow> int \<Rightarrow> event list \<Rightarrow> bool" where
  "attempts_guarded entry t0 dur [] = True"
| "attempts_guarded entry t0 dur (ev # older) =
     (ev = entry \<or>
      ((is_connect ev \<longrightarrow> (case older of Now t # rest \<Rightarrow> t - t0 < dur | _ \<Rightarrow> False)) \<and>
       attempts_guarded entry t0 dur older))"

text \<open>Since the routine was entered, every clock reading was before the deadline.\<close>

fun checks_passed :: "event \<Rightarrow> int \<Rightarrow> int \<Rightarrow> event list \<Rightarrow> bool" where
  "checks_passed entry t0 dur [] = True"
| "checks_passed entry t0 dur (ev # older) =
     (ev = entry \<or>
      ((case ev of Now t \<Rightarrow> t - t0 < dur | _ \<Rightarrow> True) \<and> checks_passed entry t0 dur older))"

text \<open>The result of a launch, and what it appends to the trace (newest first): on success
  the command, the log line and the pause of \<open>d\<close> seconds; on a reported failure the command
  and the error line, without a pause; on any other exception the command alone.\<close>

definition launch_result :: "env \<Rightarrow> world \<Rightarrow> bool result" where
  "launch_result e w =
     (case outcome (adb e (adb_calls w)) of
        Completed out \<Rightarrow> Return True
      | Failed x \<Rightarrow> if is_subprocess_error x then Return False else Raise x)"

definition launch_events ::
  "env \<Rightarrow> adb_cmd \<Rightarrow> nat \<Rightarrow> event \<Rightarrow> (exn \<Rightarrow> event) \<Rightarrow> world \<Rightarrow> event list" where
  "launch_events e cmd d ok_line error_line w =
     (case outcome (adb e (adb_calls w)) of
        Completed out \<Rightarrow> [Sleep d, ok_line, Adb cmd (Completed out)]
      | Failed x \<Rightarrow>
          (if is_subprocess_error x then [error_line x] else []) @ [Adb cmd (Failed x)])"

text \<open>The application steps with package and name: those launched with the category
  LAUNCHER and those launched with LEANBACK\_LAUNCHER.\<close>

definition launcher_steps :: "env \<Rightarrow> (step \<times> string \<times> string) list" where
  "launcher_steps e =
     [(open_netflix e, ''com.netflix.ninja'', ''Netflix''),
      (open_youtube e, ''com.google.android.youtube.tv'', ''YouTube''),
      (open_disney e, ''com.disney.disneyplus'', ''Disney+''),
      (open_spotify e, ''com.spotify.tv.android'', ''Spotify'')]"

definition leanback_steps :: "env \<Rightarrow> (step \<times> string \<times> string) list" where
  "leanback_steps e =
     [(open_amazon e, ''com.amazon.amazonvideo.livingroom'', ''Amazon Prime''),
      (open_max e, ''com.wbd.stream'', ''Max'')]"

definition flow_activity :: string where
  "flow_activity = ''ar.com.flow.androidtv_stb/ar.com.flow.androidtv.base.view.BaseActivity''"

text \<open>The entry line of the standby wait.\<close>

definition standby_entry :: event where
  "standby_entry = Log ''STB is in STANDBY. Waiting for wake-up...'' []"

text \<open>What \<^verbatim>\<open>f_is_in_standby\<close> makes of the reply to \<^verbatim>\<open>dumpsys power\<close>: a failed or timed-out
  poll counts as "not in standby".\<close>

definition reports_standby :: "proc \<Rightarrow> bool" where
  "reports_standby r =
     (case r of
        Completed out \<Rightarrow>
          contains (lower out) ''mwakefulness=asleep'' \<or>
          contains (lower out) ''mwakefulness=dozing'' \<or>
          contains (lower out) ''display power: state=off''
      | Failed x \<Rightarrow> False)"

text \<open>The trace of the wait at the head of its loop, newest event first: rounds of a poll of
  \<open>d\<close> that reported standby, a clock reading before the deadline and a pause of 10 seconds,
  back to the entry line.\<close>

fun wait_rounds :: "device \<Rightarrow> int \<Rightarrow> int \<Rightarrow> event list \<Rightarrow> bool" where
  "wait_rounds d t0 dur [] = False"
| "wait_rounds d t0 dur (ev # older) =
     (ev = standby_entry \<or>
      (ev = Sleep 10 \<and>
       (case older of
          Now t # Adb (DumpsysPower d') r # rest \<Rightarrow>
            d' = d \<and> reports_standby r \<and> t - t0 < dur \<and> wait_rounds d t0 dur rest
        | _ \<Rightarrow> False)))"

text \<open>The wait returned: the last line follows a poll of \<open>d\<close> that did not report standby,
  itself preceded by rounds only.\<close>

definition wait_returned :: "device \<Rightarrow> int \<Rightarrow> int \<Rightarrow> world \<Rightarrow> bool" where
  "wait_returned d t0 dur w =
     (case trace w of
        Log msg args # Adb (DumpsysPower d') r # rest \<Rightarrow>
          msg = ''STB returned from standby.'' \<and> d' = d \<and> \<not> reports_standby r \<and>
          wait_rounds d t0 dur rest
      | _ \<Rightarrow> False)"

text \<open>The wait ended the process: the last line follows a clock reading at or past the
  deadline, taken after a poll of \<open>d\<close> that reported standby, itself preceded by rounds only.\<close>

definition wait_exited :: "device \<Rightarrow> int \<Rightarrow> int \<Rightarrow> world \<Rightarrow> bool" where
  "wait_exited d t0 dur w =
     (case trace w of
        Log msg args # Now t # Adb (DumpsysPower d') r # rest \<Rightarrow>
          msg = ''Maximum time of {} reached during standby.'' \<and> args = [I dur] \<and>
          d' = d \<and> reports_standby r \<and> dur \<le> t - t0 \<and> wait_rounds d t0 dur rest
      | _ \<Rightarrow> False)"

section \<open>Concrete devices and operators\<close>

definition world0 :: world where
  "world0 = \<lparr>clock = 0, adb_calls = 0, inputs_read = 0, trace = [], error_already_shown = False,
              ip = Some ''10.0.0.2'', port = 5555, log_path = None\<rparr>"

definition env_of :: "(nat \<Rightarrow> reply) \<Rightarrow> env" where
  "env_of f = \<lparr>adb = f, stdin = (\<lambda>n. None), sty = True, strftime = (\<lambda>t. ''20260101_0000'')\<rparr>"

text \<open>A device that stays asleep, and one that cannot be reached.\<close>

definition env_asleep :: env where
  "env_asleep = env_of (\<lambda>n. Reply 0 (Completed ''mWakefulness=Asleep''))"

definition env_down :: env where
  "env_down = env_of (\<lambda>n. Reply 0 (Failed CalledProcessError))"

definition stb :: device where
  "stb = (''10.0.0.2'', 5555)"

text \<open>A device that answers every command.\<close>

definition env_up :: env where
  "env_up = env_of (\<lambda>n. Reply 0 (Completed []))"

text \<open>An operator who types the given lines, in front of a device that answers every
  command.\<close>

definition env_lines :: "string list \<Rightarrow> env" where
  "env_lines ls =
     \<lparr>adb = (\<lambda>n. Reply 0 (Completed [])),
      stdin = (\<lambda>n. if n < length ls then Some (ls ! n) else None),
      sty = True, strftime = (\<lambda>t. ''20260101_0000'')\<rparr>"

text \<open>A device that is back: it accepts the connection, reports ready, and answers every
  later command.\<close>

definition env_recover :: env where
  "env_recover =
     env_of (\<lambda>n. Reply 0 (Completed (if n = 0 then ''connected to 10.0.0.2:5555''
                                      else if n = 1 then ''device'' else [])))"

text \<open>A device whose power-state poll times out, and one that leaves standby at the third
  poll.\<close>

definition env_timeout :: env where
  "env_timeout = env_of (\<lambda>n. Reply 5 (Failed TimeoutExpired))"

definition env_wakes :: env where
  "env_wakes =
     env_of (\<lambda>n. Reply 0 (Completed (if n < 2 then ''mWakefulness=Dozing''
                                      else ''mWakefulness=Awake'')))"

section \<open>The loops, one iteration at a time\<close>

lemma wait_standby_loop_Break:
  "wait_standby_iter e d t0 dur w = Break r \<Longrightarrow> wait_standby_loop e d t0 dur w = r"
  by (subst wait_standby_loop.simps) simp

lemma wait_standby_loop_Continue:
  "wait_standby_iter e d t0 dur w = Continue w1 \<Longrightarrow>
   wait_standby_loop e d t0 dur w = wait_standby_loop e d t0 dur w1"
  by (subst wait_standby_loop.simps) simp

lemma reconnect_loop_Break:
  "reconnect_iter e i p t0 dur w = Break r \<Longrightarrow> reconnect_loop e i p t0 dur w = r"
  by (subst reconnect_loop.simps) simp

lemma reconnect_loop_Continue:
  "reconnect_iter e i p t0 dur w = Continue w1 \<Longrightarrow>
   reconnect_loop e i p t0 dur w = reconnect_loop e i p t0 dur w1"
  by (subst reconnect_loop.simps) simp

lemma reconnect_loop_project1_Break:
  "reconnect_iter_project1 e i p t0 dur w = Break r \<Longrightarrow>
   reconnect_loop_project1 e i p t0 dur w = r"
  by (subst reconnect_loop_project1.simps) simp

lemma reconnect_loop_project1_Continue:
  "reconnect_iter_project1 e i p t0 dur w = Continue w1 \<Longrightarrow>
   reconnect_loop_project1 e i p t0 dur w = reconnect_loop_project1 e i p t0 dur w1"
  by (subst reconnect_loop_project1.simps) simp

lemma f_connect_device_no_Exit: "fst (f_connect_device e i p w) \<noteq> Exit m"
  by (auto simp: f_connect_device_def Let_def split: prod.splits proc.splits)

section \<open>Exit status at the deadline\<close>

lemma wait_standby_iter_Exit:
  "wait_standby_iter e d t0 dur w = Break (Exit n, w1) \<Longrightarrow> n = 0 \<and> deadline_exit t0 dur w1"
  by (auto simp: wait_standby_iter_def deadline_exit_def time_time_def f_log_def
        split: prod.splits bool.splits if_splits)

lemma reconnect_iter_Exit:
  "reconnect_iter e i p t0 dur w = Break (Exit n, w1) \<Longrightarrow> n = 0 \<and> deadline_exit t0 dur w1"
  using f_connect_device_no_Exit [of e i p "snd (time_time w)"]
  by (auto simp: reconnect_iter_def deadline_exit_def time_time_def f_log_def
        split: prod.splits bool.splits if_splits result.splits option.splits)

lemma reconnect_iter_project1_Exit:
  "reconnect_iter_project1 e i p t0 dur w = Break (Exit n, w1) \<Longrightarrow>
   n = 0 \<and> deadline_exit t0 dur w1"
  using f_connect_device_no_Exit [of e i p "snd (time_time w)"]
  by (auto simp: reconnect_iter_project1_def deadline_exit_def time_time_def f_log_def
        split: prod.splits bool.splits if_splits result.splits option.splits)

lemma wait_standby_loop_exit:
  "wait_standby_loop e d t0 dur w = (Exit n, w') \<Longrightarrow> n = 0 \<and> deadline_exit t0 dur w'"
proof (induction e d t0 dur w rule: wait_standby_loop.induct)
  case (1 e dev initial_time duration w)
  show ?case
  proof (cases "wait_standby_iter e dev initial_time duration w")
    case (Break r)
    with "1.prems" show ?thesis
      using wait_standby_iter_Exit by (simp add: wait_standby_loop_Break)
  next
    case (Continue w1)
    with "1.prems" "1.IH" show ?thesis
      by (simp add: wait_standby_loop_Continue)
  qed
qed

lemma reconnect_loop_exit:
  "reconnect_loop e i p t0 dur w = (Exit n, w') \<Longrightarrow> n = 0 \<and> deadline_exit t0 dur w'"
proof (induction e i p t0 dur w rule: reconnect_loop.induct)
  case (1 e ip0 port0 initial_time duration w)
  show ?case
  proof (cases "reconnect_iter e ip0 port0 initial_time duration w")
    case (Break r)
    with "1.prems" show ?thesis
      using reconnect_iter_Exit by (simp add: reconnect_loop_Break)
  next
    case (Continue w1)
    with "1.prems" "1.IH" show ?thesis
      by (simp add: reconnect_loop_Continue)
  qed
qed

lemma reconnect_loop_project1_exit:
  "reconnect_loop_project1 e i p t0 dur w = (Exit n, w') \<Longrightarrow> n = 0 \<and> deadline_exit t0 dur w'"
proof (induction e i p t0 dur w rule: reconnect_loop_project1.induct)
  case (1 e ip0 port0 initial_time duration w)
  show ?case
  proof (cases "reconnect_iter_project1 e ip0 port0 initial_time duration w")
    case (Break r)
    with "1.prems" show ?thesis
      using reconnect_iter_project1_Exit by (simp add: reconnect_loop_project1_Break)
  next
    case (Continue w1)
    with "1.prems" "1.IH" show ?thesis
      by (simp add: reconnect_loop_project1_Continue)
  qed
qed

text \<open>
  Claim C10. Whenever the standby wait or either reconnection routine leaves through
  \<^verbatim>\<open>sys.exit\<close>, the exit status is 0, and the exit is the deadline one: it follows a clock
  reading with \<open>now - start \<ge> duration\<close> and the final log line. A deadline abort therefore
  has the status of a successful exit.
\<close>

theorem deadline_exit_status_zero:
  "(f_wait_standby_exit e d t0 dur w = (Exit n, w') \<longrightarrow> n = 0 \<and> deadline_exit t0 dur w') \<and>
   (f_reconnect_and_reinitialize e i p t0 dur w = (Exit n, w') \<longrightarrow>
      n = 0 \<and> deadline_exit t0 dur w') \<and>
   (f_reconnect_and_reinitialize_project1 e i p t0 dur w = (Exit n, w') \<longrightarrow>
      n = 0 \<and> deadline_exit t0 dur w')"
proof (intro conjI impI)
  assume "f_wait_standby_exit e d t0 dur w = (Exit n, w')"
  then have "wait_standby_loop e d t0 dur
               (f_log ''STB is in STANDBY. Waiting for wake-up...'' [] w) = (Exit n, w')"
    by (auto simp: f_wait_standby_exit_def split: prod.splits result.splits)
  then have r: "n = 0 \<and> deadline_exit t0 dur w'" by (rule wait_standby_loop_exit)
  from r show "n = 0" ..
  from r show "deadline_exit t0 dur w'" ..
next
  assume "f_reconnect_and_reinitialize e i p t0 dur w = (Exit n, w')"
  then have r: "n = 0 \<and> deadline_exit t0 dur w'"
    unfolding f_reconnect_and_reinitialize_def by (rule reconnect_loop_exit)
  from r show "n = 0" ..
  from r show "deadline_exit t0 dur w'" ..
next
  assume "f_reconnect_and_reinitialize_project1 e i p t0 dur w = (Exit n, w')"
  then have r: "n = 0 \<and> deadline_exit t0 dur w'"
    unfolding f_reconnect_and_reinitialize_project1_def by (rule reconnect_loop_project1_exit)
  from r show "n = 0" ..
  from r show "deadline_exit t0 dur w'" ..
qed

theorem deadline_exit_status_zero_witness:
  "fst (f_wait_standby_exit env_asleep stb 0 25 world0) = Exit 0 \<and>
   deadline_exit 0 25 (snd (f_wait_standby_exit env_asleep stb 0 25 world0)) \<and>
   fst (f_reconnect_and_reinitialize env_down (Some ''10.0.0.2'') 5555 0 25 world0) = Exit 0 \<and>
   deadline_exit 0 25
     (snd (f_reconnect_and_reinitialize env_down (Some ''10.0.0.2'') 5555 0 25 world0)) \<and>
   fst (f_reconnect_and_reinitialize_project1 env_down (Some ''10.0.0.2'') 5555 0 25 world0)
     = Exit 0 \<and>
   deadline_exit 0 25
     (snd (f_reconnect_and_reinitialize_project1 env_down (Some ''10.0.0.2'') 5555 0 25 world0))"
proof -
  let ?a = "f_wait_standby_exit env_asleep stb 0 25 world0"
  let ?b = "f_reconnect_and_reinitialize env_down (Some ''10.0.0.2'') 5555 0 25 world0"
  let ?c = "f_reconnect_and_reinitialize_project1 env_down (Some ''10.0.0.2'') 5555 0 25 world0"
  have a: "fst ?a = Exit 0" by code_simp
  have b: "fst ?b = Exit 0" by code_simp
  have c: "fst ?c = Exit 0" by code_simp
  have a': "?a = (Exit 0, snd ?a)" using a by (simp add: prod_eq_iff)
  have b': "?b = (Exit 0, snd ?b)" using b by (simp add: prod_eq_iff)
  have c': "?c = (Exit 0, snd ?c)" using c by (simp add: prod_eq_iff)
  have "deadline_exit 0 25 (snd ?a)"
    using a' deadline_exit_status_zero
            [where e = env_asleep and d = stb and ?t0.0 = 0 and dur = 25 and w = world0
               and n = 0 and w' = "snd ?a"]
    by blast
  moreover have "deadline_exit 0 25 (snd ?b)"
    using b' deadline_exit_status_zero
            [where e = env_down and i = "Some ''10.0.0.2''" and p = 5555 and ?t0.0 = 0
               and dur = 25 and w = world0 and n = 0 and w' = "snd ?b"]
    by blast
  moreover have "deadline_exit 0 25 (snd ?c)"
    using c' deadline_exit_status_zero
            [where e = env_down and i = "Some ''10.0.0.2''" and p = 5555 and ?t0.0 = 0
               and dur = 25 and w = world0 and n = 0 and w' = "snd ?c"]
    by blast
  ultimately show ?thesis using a b c by simp
qed

section \<open>The failure flag and the settle delay\<close>

lemma f_send_key_flag_rule: "flag_rule w (fst (f_send_key e dv c n w)) (snd (f_send_key e dv c n w))"
  by (simp add: f_send_key_def flag_rule_def failure_notifications_def subprocess_run_def Let_def
        f_log_def sleep_def split: proc.splits)

lemma send_then_sleep_flag_rule:
  "flag_rule w (fst (send_then_sleep e dv c n d w)) (snd (send_then_sleep e dv c n d w))"
  using f_send_key_flag_rule [of w e dv c n]
  by (auto simp: send_then_sleep_def flag_rule_def failure_notifications_def sleep_def
        split: prod.splits bool.splits)

lemma sleep_then_send_flag_rule:
  "flag_rule w (fst (sleep_then_send e dv c n d w)) (snd (sleep_then_send e dv c n d w))"
  by (simp add: sleep_then_send_def f_send_key_def flag_rule_def failure_notifications_def
        subprocess_run_def Let_def f_log_def sleep_def split: proc.splits)

lemma f_send_key_trace:
  "trace (snd (f_send_key e dv c n w)) = send_events e dv c n w @ trace w \<and>
   fst (f_send_key e dv c n w) = send_ok e w"
  by (simp add: f_send_key_def send_events_def send_ok_def subprocess_run_def Let_def
        f_log_def sleep_def split: proc.splits)

lemma send_then_sleep_trace:
  "trace (snd (send_then_sleep e dv c n d w)) =
     (if send_ok e w then [Sleep d] else []) @ send_events e dv c n w @ trace w \<and>
   fst (send_then_sleep e dv c n d w) = send_ok e w"
  using f_send_key_trace [of e dv c n w]
  by (auto simp: send_then_sleep_def sleep_def split: prod.splits bool.splits)

lemma sleep_then_send_trace:
  "trace (snd (sleep_then_send e dv c n d w)) = send_events e dv c n w @ Sleep d # trace w \<and>
   fst (sleep_then_send e dv c n d w) = send_ok e w"
  by (simp add: sleep_then_send_def f_send_key_def send_events_def send_ok_def subprocess_run_def
        Let_def f_log_def sleep_def split: proc.splits)


text \<open>
  Claim C7, as the code has it. Every key dispatcher follows the flag rule: a failed send
  emits a failure notification only when the flag is unset and leaves the flag set, and a
  successful send clears it. The application launchers (\<^verbatim>\<open>f_open_app\<close>,
  \<^verbatim>\<open>f_open_app_secondary\<close>, \<^verbatim>\<open>f_send_flow_key\<close>) never read or write the flag: they leave it
  as it was and log every failure they report.
\<close>

theorem key_failure_flag:
  "(\<forall>(f, code, name, d) \<in> set (pause_after_keys e @ pause_before_keys e).
      flag_rule w (fst (f dv w)) (snd (f dv w))) \<and>
   error_already_shown (snd (f_open_app e dv package description w)) = error_already_shown w \<and>
   error_already_shown (snd (f_open_app_secondary e dv package description w)) = error_already_shown w \<and>
   error_already_shown (snd (f_send_flow_key e dv w)) = error_already_shown w \<and>
   (fst (f_open_app e dv package description w) = Return False \<longrightarrow>
      failure_notifications (snd (f_open_app e dv package description w)) = failure_notifications w + 1) \<and>
   (fst (f_open_app_secondary e dv package description w) = Return False \<longrightarrow>
      failure_notifications (snd (f_open_app_secondary e dv package description w)) = failure_notifications w + 1) \<and>
   (fst (f_send_flow_key e dv w) = Return False \<longrightarrow>
      failure_notifications (snd (f_send_flow_key e dv w)) = failure_notifications w + 1)"
proof (intro conjI)
  show "\<forall>(f, code, name, d) \<in> set (pause_after_keys e @ pause_before_keys e).
      flag_rule w (fst (f dv w)) (snd (f dv w))"
    by (simp add: pause_after_keys_def pause_before_keys_def f_send_home_key_def f_send_right_key_def
         f_send_left_key_def f_send_down_key_def f_send_up_key_def f_send_ok_key_def
         f_send_live_key_def f_send_volume_up_key_def f_send_volume_down_key_def f_send_mute_key_def
         f_send_standby_key_def f_send_wake_up_key_def f_send_back_key_def f_send_guide_key_def
         f_send_channelUP_key_def f_send_channelDOWN_key_def
         send_then_sleep_flag_rule sleep_then_send_flag_rule)
qed (simp_all add: f_open_app_def f_open_app_secondary_def f_send_flow_key_def subprocess_run_def
       Let_def f_log_def sleep_def failure_notifications_def split: proc.splits)

theorem key_failure_flag_witness:
  "(f_send_home_key env_down, ''3'', ''KEY_HOME'', 10)
     \<in> set (pause_after_keys env_down @ pause_before_keys env_down) \<and>
   fst (f_send_home_key env_down stb world0) = False \<and>
   flag_rule world0 False (snd (f_send_home_key env_down stb world0)) \<and>
   fst (f_open_app env_down stb ''com.netflix.ninja'' ''Netflix'' world0) = Return False \<and>
   failure_notifications (snd (f_open_app env_down stb ''com.netflix.ninja'' ''Netflix'' world0)) = 1"
proof -
  have m: "(f_send_home_key env_down, ''3'', ''KEY_HOME'', 10)
             \<in> set (pause_after_keys env_down @ pause_before_keys env_down)"
    by (simp add: pause_after_keys_def)
  have f: "fst (f_send_home_key env_down stb world0) = False" by code_simp
  have a: "fst (f_open_app env_down stb ''com.netflix.ninja'' ''Netflix'' world0) = Return False"
    by code_simp
  have z: "failure_notifications world0 = 0" by code_simp
  note k = key_failure_flag [where e = env_down and w = world0 and dv = stb
             and package = "''com.netflix.ninja''" and description = "''Netflix''"]
  from k m have "flag_rule world0 (fst (f_send_home_key env_down stb world0))
                   (snd (f_send_home_key env_down stb world0))"
    by blast
  moreover from k a z
  have "failure_notifications
          (snd (f_open_app env_down stb ''com.netflix.ninja'' ''Netflix'' world0)) = 1"
    by simp
  ultimately show ?thesis using m f a by simp
qed

text \<open>The claim as stated fails for an application launch: with the flag already set a
  failed launch still emits a notification; with the flag unset a failed launch leaves it
  unset; and a successful launch does not clear a set flag.\<close>

theorem app_launch_flag_counterexample:
  "fst (f_open_app env_down stb ''com.netflix.ninja'' ''Netflix''
          (world0\<lparr>error_already_shown := True\<rparr>)) = Return False \<and>
   failure_notifications
     (snd (f_open_app env_down stb ''com.netflix.ninja'' ''Netflix''
             (world0\<lparr>error_already_shown := True\<rparr>)))
     = failure_notifications (world0\<lparr>error_already_shown := True\<rparr>) + 1 \<and>
   fst (f_open_app env_down stb ''com.netflix.ninja'' ''Netflix'' world0) = Return False \<and>
   \<not> error_already_shown (snd (f_open_app env_down stb ''com.netflix.ninja'' ''Netflix'' world0)) \<and>
   fst (f_open_app env_up stb ''com.netflix.ninja'' ''Netflix''
          (world0\<lparr>error_already_shown := True\<rparr>)) = Return True \<and>
   error_already_shown
     (snd (f_open_app env_up stb ''com.netflix.ninja'' ''Netflix''
             (world0\<lparr>error_already_shown := True\<rparr>)))"
  by code_simp

lemma f_open_app_trace:
  "fst (f_open_app e dv package description w) = launch_result e w \<and>
   trace (snd (f_open_app e dv package description w)) =
     launch_events e (Monkey dv package ''android.intent.category.LAUNCHER'') 30
       (Log ''{} opened successfully'' [S (strip description)])
       (\<lambda>x. Log ''Error opening {}: {}'' [S (strip description), E x]) w @ trace w"
  by (simp add: f_open_app_def launch_result_def launch_events_def subprocess_run_def Let_def
        f_log_def sleep_def split: proc.splits)

lemma f_open_app_secondary_trace:
  "fst (f_open_app_secondary e dv package description w) = launch_result e w \<and>
   trace (snd (f_open_app_secondary e dv package description w)) =
     launch_events e (Monkey dv package ''android.intent.category.LEANBACK_LAUNCHER'') 30
       (Log ''{} opened successfully'' [S description])
       (\<lambda>x. Log ''Error opening {}: {}'' [S description, E x]) w @ trace w"
  by (simp add: f_open_app_secondary_def launch_result_def launch_events_def subprocess_run_def
        Let_def f_log_def sleep_def split: proc.splits)

lemma f_send_flow_key_trace:
  "fst (f_send_flow_key e dv w) = launch_result e w \<and>
   trace (snd (f_send_flow_key e dv w)) =
     launch_events e
       (AmStart dv flow_activity ''android.intent.category.LEANBACK_LAUNCHER'') 15
       (Log ''KEY_APP sent successfully'' [])
       (\<lambda>x. Log ''Error opening APP: {}'' [E x]) w @ trace w"
  by (simp add: f_send_flow_key_def flow_activity_def launch_result_def launch_events_def
        subprocess_run_def Let_def f_log_def sleep_def split: proc.splits)

lemma send_flow_with_navigation_trace:
  "fst (send_flow_with_navigation e dv w) = launch_result e w \<and>
   trace (snd (send_flow_with_navigation e dv w)) =
     launch_events e
       (AmStart dv flow_activity ''android.intent.category.LEANBACK_LAUNCHER'') 15
       (Log ''KEY_APP sent successfully'' [])
       (\<lambda>x. Log ''Error opening APP: {}'' [E x]) w @ Sleep 5 # trace w"
  using f_send_flow_key_trace [of e dv "sleep 5 w"]
  by (simp add: send_flow_with_navigation_def launch_result_def launch_events_def sleep_def)

text \<open>
  Claim C8, as the code has it. For every step of the step lists, a settle delay that
  follows the action is applied only after a successful dispatch and before the step
  returns, and is not applied on failure: a failed key send is followed by the 5 second
  failure pause of \<^verbatim>\<open>f_send_key\<close> instead, a failed launch by no pause at all. HOME, RIGHT,
  LEFT, DOWN, UP, OK, LIVE, VOLUME UP, VOLUME DOWN, MUTE, STANDBY and WAKEUP, the launches
  \<^verbatim>\<open>f_open_app\<close>, \<^verbatim>\<open>f_open_app_secondary\<close> (30 seconds) and \<^verbatim>\<open>f_send_flow_key\<close> (15 seconds), and
  the six application steps (HOME, then the launch) all behave so. BACK, GUIDE, CHANNEL UP
  and CHANNEL DOWN instead pause before sending, whatever the outcome of the send, and have
  no settle delay after it; \<^verbatim>\<open>send_flow_with_navigation\<close> pauses 5 seconds before the launch
  and then behaves as \<^verbatim>\<open>f_send_flow_key\<close>.
\<close>

theorem settle_delay_placement:
  "(\<forall>(f, code, name, d) \<in> set (pause_after_keys e).
      fst (f dv w) = send_ok e w \<and>
      trace (snd (f dv w)) =
        (if send_ok e w then [Sleep d] else []) @ send_events e dv code name w @ trace w) \<and>
   (\<forall>(f, code, name, d) \<in> set (pause_before_keys e).
      fst (f dv w) = send_ok e w \<and>
      trace (snd (f dv w)) = send_events e dv code name w @ Sleep d # trace w) \<and>
   (fst (f_open_app e dv package description w) = launch_result e w \<and>
    trace (snd (f_open_app e dv package description w)) =
      launch_events e (Monkey dv package ''android.intent.category.LAUNCHER'') 30
        (Log ''{} opened successfully'' [S (strip description)])
        (\<lambda>x. Log ''Error opening {}: {}'' [S (strip description), E x]) w @ trace w) \<and>
   (fst (f_open_app_secondary e dv package description w) = launch_result e w \<and>
    trace (snd (f_open_app_secondary e dv package description w)) =
      launch_events e (Monkey dv package ''android.intent.category.LEANBACK_LAUNCHER'') 30
        (Log ''{} opened successfully'' [S description])
        (\<lambda>x. Log ''Error opening {}: {}'' [S description, E x]) w @ trace w) \<and>
   (fst (f_send_flow_key e dv w) = launch_result e w \<and>
    trace (snd (f_send_flow_key e dv w)) =
      launch_events e
        (AmStart dv flow_activity ''android.intent.category.LEANBACK_LAUNCHER'') 15
        (Log ''KEY_APP sent successfully'' [])
        (\<lambda>x. Log ''Error opening APP: {}'' [E x]) w @ trace w) \<and>
   (fst (send_flow_with_navigation e dv w) = launch_result e w \<and>
    trace (snd (send_flow_with_navigation e dv w)) =
      launch_events e
        (AmStart dv flow_activity ''android.intent.category.LEANBACK_LAUNCHER'') 15
        (Log ''KEY_APP sent successfully'' [])
        (\<lambda>x. Log ''Error opening APP: {}'' [E x]) w @ Sleep 5 # trace w) \<and>
   (\<forall>(f, package, name) \<in> set (launcher_steps e).
      fst (f dv w) = launch_result e (snd (f_send_home_key e dv w)) \<and>
      trace (snd (f dv w)) =
        launch_events e (Monkey dv package ''android.intent.category.LAUNCHER'') 30
          (Log ''{} opened successfully'' [S (strip name)])
          (\<lambda>x. Log ''Error opening {}: {}'' [S (strip name), E x])
          (snd (f_send_home_key e dv w)) @
        trace (snd (f_send_home_key e dv w))) \<and>
   (\<forall>(f, package, name) \<in> set (leanback_steps e).
      fst (f dv w) = launch_result e (snd (f_send_home_key e dv w)) \<and>
      trace (snd (f dv w)) =
        launch_events e (Monkey dv package ''android.intent.category.LEANBACK_LAUNCHER'') 30
          (Log ''{} opened successfully'' [S name])
          (\<lambda>x. Log ''Error opening {}: {}'' [S name, E x])
          (snd (f_send_home_key e dv w)) @
        trace (snd (f_send_home_key e dv w)))"
proof (intro conjI)
  show "\<forall>(f, code, name, d) \<in> set (pause_after_keys e).
      fst (f dv w) = send_ok e w \<and>
      trace (snd (f dv w)) =
        (if send_ok e w then [Sleep d] else []) @ send_events e dv code name w @ trace w"
    by (simp add: pause_after_keys_def f_send_home_key_def f_send_right_key_def
         f_send_left_key_def f_send_down_key_def f_send_up_key_def f_send_ok_key_def
         f_send_live_key_def f_send_volume_up_key_def f_send_volume_down_key_def f_send_mute_key_def
         f_send_standby_key_def f_send_wake_up_key_def send_then_sleep_trace)
  show "\<forall>(f, code, name, d) \<in> set (pause_before_keys e).
      fst (f dv w) = send_ok e w \<and>
      trace (snd (f dv w)) = send_events e dv code name w @ Sleep d # trace w"
    by (simp add: pause_before_keys_def f_send_back_key_def f_send_guide_key_def
         f_send_channelUP_key_def f_send_channelDOWN_key_def sleep_then_send_trace)
  show "\<forall>(f, package, name) \<in> set (launcher_steps e).
      fst (f dv w) = launch_result e (snd (f_send_home_key e dv w)) \<and>
      trace (snd (f dv w)) =
        launch_events e (Monkey dv package ''android.intent.category.LAUNCHER'') 30
          (Log ''{} opened successfully'' [S (strip name)])
          (\<lambda>x. Log ''Error opening {}: {}'' [S (strip name), E x])
          (snd (f_send_home_key e dv w)) @
        trace (snd (f_send_home_key e dv w))"
    by (simp add: launcher_steps_def open_netflix_def open_youtube_def open_disney_def
          open_spotify_def f_open_app_trace)
  show "\<forall>(f, package, name) \<in> set (leanback_steps e).
      fst (f dv w) = launch_result e (snd (f_send_home_key e dv w)) \<and>
      trace (snd (f dv w)) =
        launch_events e (Monkey dv package ''android.intent.category.LEANBACK_LAUNCHER'') 30
          (Log ''{} opened successfully'' [S name])
          (\<lambda>x. Log ''Error opening {}: {}'' [S name, E x])
          (snd (f_send_home_key e dv w)) @
        trace (snd (f_send_home_key e dv w))"
    by (simp add: leanback_steps_def open_amazon_def open_max_def f_open_app_secondary_trace)
qed (simp_all only: f_open_app_trace f_open_app_secondary_trace f_send_flow_key_trace
       send_flow_with_navigation_trace)

theorem settle_delay_placement_witness:
  "(f_send_home_key env_up, ''3'', ''KEY_HOME'', 10) \<in> set (pause_after_keys env_up) \<and>
   (f_send_channelUP_key env_up, ''166'', ''KEY_CHANNEL_UP'', 20) \<in> set (pause_before_keys env_up) \<and>
   (open_netflix env_up, ''com.netflix.ninja'', ''Netflix'') \<in> set (launcher_steps env_up) \<and>
   (open_max env_up, ''com.wbd.stream'', ''Max'') \<in> set (leanback_steps env_up) \<and>
   trace (snd (f_send_home_key env_up stb world0)) =
     [Sleep 10, Log ''{} sent successfully'' [S ''KEY_HOME''],
      Adb (KeyEvent stb ''3'') (Completed [])] \<and>
   trace (snd (f_send_channelUP_key env_up stb world0)) =
     [Log ''{} sent successfully'' [S ''KEY_CHANNEL_UP''],
      Adb (KeyEvent stb ''166'') (Completed []), Sleep 20] \<and>
   fst (f_open_app env_up stb ''com.netflix.ninja'' ''Netflix'' world0) = Return True \<and>
   trace (snd (f_open_app env_up stb ''com.netflix.ninja'' ''Netflix'' world0)) =
     [Sleep 30, Log ''{} opened successfully'' [S ''Netflix''],
      Adb (Monkey stb ''com.netflix.ninja'' ''android.intent.category.LAUNCHER'') (Completed [])] \<and>
   fst (f_open_app env_down stb ''com.netflix.ninja'' ''Netflix'' world0) = Return False \<and>
   trace (snd (f_open_app env_down stb ''com.netflix.ninja'' ''Netflix'' world0)) =
     [Log ''Error opening {}: {}'' [S ''Netflix'', E CalledProcessError],
      Adb (Monkey stb ''com.netflix.ninja'' ''android.intent.category.LAUNCHER'')
        (Failed CalledProcessError)] \<and>
   trace (snd (send_flow_with_navigation env_up stb world0)) =
     [Sleep 15, Log ''KEY_APP sent successfully'' [],
      Adb (AmStart stb flow_activity ''android.intent.category.LEANBACK_LAUNCHER'') (Completed []),
      Sleep 5] \<and>
   fst (open_netflix env_up stb world0) = Return True \<and>
   fst (open_max env_up stb world0) = Return True"
proof -
  have m1: "(f_send_home_key env_up, ''3'', ''KEY_HOME'', 10) \<in> set (pause_after_keys env_up)"
    by (simp add: pause_after_keys_def)
  have m2: "(f_send_channelUP_key env_up, ''166'', ''KEY_CHANNEL_UP'', 20)
              \<in> set (pause_before_keys env_up)"
    by (simp add: pause_before_keys_def)
  have m3: "(open_netflix env_up, ''com.netflix.ninja'', ''Netflix'') \<in> set (launcher_steps env_up)"
    by (simp add: launcher_steps_def)
  have m4: "(open_max env_up, ''com.wbd.stream'', ''Max'') \<in> set (leanback_steps env_up)"
    by (simp add: leanback_steps_def)
  have ok: "send_ok env_up world0" by code_simp
  have ev1: "send_events env_up stb ''3'' ''KEY_HOME'' world0 =
               [Log ''{} sent successfully'' [S ''KEY_HOME''], Adb (KeyEvent stb ''3'') (Completed [])]"
    by code_simp
  have ev2: "send_events env_up stb ''166'' ''KEY_CHANNEL_UP'' world0 =
               [Log ''{} sent successfully'' [S ''KEY_CHANNEL_UP''],
                Adb (KeyEvent stb ''166'') (Completed [])]"
    by code_simp
  have st: "strip ''Netflix'' = ''Netflix''" by code_simp
  have lr: "launch_result env_up world0 = Return True"
    "launch_result env_down world0 = Return False"
    "launch_result env_up (snd (f_send_home_key env_up stb world0)) = Return True"
    by code_simp+
  have le: "launch_events env_up cmd d ok_line error_line world0 =
              [Sleep d, ok_line, Adb cmd (Completed [])]"
    "launch_events env_down cmd d ok_line error_line world0 =
              [error_line CalledProcessError, Adb cmd (Failed CalledProcessError)]"
    for cmd d ok_line error_line
    by (simp_all add: launch_events_def env_up_def env_down_def env_of_def world0_def
          is_subprocess_error_def)
  have t0: "trace world0 = []" by (simp add: world0_def)
  note k = settle_delay_placement [where e = env_up and dv = stb and w = world0
             and package = "''com.netflix.ninja''" and description = "''Netflix''"]
  note kd = settle_delay_placement [where e = env_down and dv = stb and w = world0
             and package = "''com.netflix.ninja''" and description = "''Netflix''"]
  from k m1 have "trace (snd (f_send_home_key env_up stb world0)) =
      (if send_ok env_up world0 then [Sleep 10] else []) @
      send_events env_up stb ''3'' ''KEY_HOME'' world0 @ trace world0"
    by fastforce
  then have a1: "trace (snd (f_send_home_key env_up stb world0)) =
     [Sleep 10, Log ''{} sent successfully'' [S ''KEY_HOME''],
      Adb (KeyEvent stb ''3'') (Completed [])]"
    using ok ev1 t0 by simp
  from k m2 have "trace (snd (f_send_channelUP_key env_up stb world0)) =
      send_events env_up stb ''166'' ''KEY_CHANNEL_UP'' world0 @ Sleep 20 # trace world0"
    by fastforce
  then have a2: "trace (snd (f_send_channelUP_key env_up stb world0)) =
     [Log ''{} sent successfully'' [S ''KEY_CHANNEL_UP''],
      Adb (KeyEvent stb ''166'') (Completed []), Sleep 20]"
    using ev2 t0 by simp
  note k3 = k [THEN conjunct2, THEN conjunct2, THEN conjunct1]
  note kd3 = kd [THEN conjunct2, THEN conjunct2, THEN conjunct1]
  note k6 = k [THEN conjunct2, THEN conjunct2, THEN conjunct2, THEN conjunct2, THEN conjunct2,
               THEN conjunct1]
  from k3 have a3: "fst (f_open_app env_up stb ''com.netflix.ninja'' ''Netflix'' world0) = Return True"
    "trace (snd (f_open_app env_up stb ''com.netflix.ninja'' ''Netflix'' world0)) =
     [Sleep 30, Log ''{} opened successfully'' [S ''Netflix''],
      Adb (Monkey stb ''com.netflix.ninja'' ''android.intent.category.LAUNCHER'') (Completed [])]"
    by (simp_all add: lr le st t0)
  from kd3 have a4: "fst (f_open_app env_down stb ''com.netflix.ninja'' ''Netflix'' world0) = Return False"
    "trace (snd (f_open_app env_down stb ''com.netflix.ninja'' ''Netflix'' world0)) =
     [Log ''Error opening {}: {}'' [S ''Netflix'', E CalledProcessError],
      Adb (Monkey stb ''com.netflix.ninja'' ''android.intent.category.LAUNCHER'')
        (Failed CalledProcessError)]"
    by (simp_all add: lr le st t0)
  from k6 have a5: "trace (snd (send_flow_with_navigation env_up stb world0)) =
     [Sleep 15, Log ''KEY_APP sent successfully'' [],
      Adb (AmStart stb flow_activity ''android.intent.category.LEANBACK_LAUNCHER'') (Completed []),
      Sleep 5]"
    by (simp add: le t0)
  from k m3 have a6: "fst (open_netflix env_up stb world0) = Return True"
    using lr(3) by fastforce
  from k m4 have a7: "fst (open_max env_up stb world0) = Return True"
    using lr(3) by fastforce
  show ?thesis
    using m1 m2 m3 m4 a1 a2 a3 a4 a5 a6 a7 by (simp only: simp_thms)
qed

text \<open>The claim as stated fails for CHANNEL UP: the 20 second pause comes before the send
  and is applied although the send fails; after a successful send there is no pause.\<close>

theorem channel_up_pause_counterexample:
  "fst (f_send_channelUP_key env_down stb world0) = False \<and>
   trace (snd (f_send_channelUP_key env_down stb world0)) =
     [Sleep 5, Log ''Error sending {}: {}'' [S ''KEY_CHANNEL_UP'', E CalledProcessError],
      Adb (KeyEvent stb ''166'') (Failed CalledProcessError), Sleep 20] \<and>
   fst (f_send_channelUP_key env_up stb world0) = True \<and>
   trace (snd (f_send_channelUP_key env_up stb world0)) =
     [Log ''{} sent successfully'' [S ''KEY_CHANNEL_UP''],
      Adb (KeyEvent stb ''166'') (Completed []), Sleep 20]"
  by code_simp

section \<open>Operator input: duration and log label\<close>

lemma is_digit_digit_char: "k < 10 \<Longrightarrow> is_digit (digit_char k)"
  by (simp add: is_digit_def digit_char_def Let_def)

lemma val_digit_char: "k < 10 \<Longrightarrow> (of_char (digit_char k) :: nat) - 48 = k"
  by (simp add: digit_char_def)

lemma not_space_digit: "is_digit c \<Longrightarrow> \<not> is_space c"
  by (auto simp: is_digit_def is_space_def Let_def)

lemma digit_not_sign: "is_digit c \<Longrightarrow> c \<noteq> CHR ''-'' \<and> c \<noteq> CHR ''+''"
  by (auto simp: is_digit_def Let_def)

lemma parse_digits_all:
  "list_all is_digit xs \<Longrightarrow> xs \<noteq> [] \<Longrightarrow>
   parse_digits acc b xs = Some (foldl (\<lambda>a c. 10 * a + (of_char c - 48)) acc xs)"
proof (induction xs arbitrary: acc b)
  case Nil
  then show ?case by simp
next
  case (Cons c cs)
  note IH = Cons.IH
  from Cons.prems have c: "is_digit c" and cs: "list_all is_digit cs" by simp_all
  show ?case
  proof (cases "cs = []")
    case True
    with c show ?thesis by simp
  next
    case False
    have "parse_digits acc b (c # cs) = parse_digits (10 * acc + (of_char c - 48)) True cs"
      using c by simp
    also have "\<dots> = Some (foldl (\<lambda>a c. 10 * a + (of_char c - 48)) (10 * acc + (of_char c - 48)) cs)"
      by (rule IH [OF cs False])
    finally show ?thesis by simp
  qed
qed

lemma strip_Nil: "strip [] = []"
  by (simp add: strip_def)

lemma str_nat_digits:
  "list_all is_digit (str_nat n) \<and> str_nat n \<noteq> [] \<and>
   foldl (\<lambda>a c. 10 * a + (of_char c - 48)) 0 (str_nat n) = n"
proof (induction n rule: str_nat.induct)
  case (1 n)
  show ?case
  proof (cases "n < 10")
    case True
    then show ?thesis
      by (subst (1 2 3) str_nat.simps) (simp add: is_digit_digit_char val_digit_char)
  next
    case False
    with 1 show ?thesis
      by (subst (1 2 3) str_nat.simps) (simp add: is_digit_digit_char val_digit_char)
  qed
qed

lemma strip_id:
  assumes "s \<noteq> []" "\<not> is_space (hd s)" "\<not> is_space (last s)"
  shows "strip s = s"
proof -
  have 1: "dropWhile is_space s = s" using assms by (cases s) auto
  have "rev s \<noteq> []" "\<not> is_space (hd (rev s))" using assms by (simp_all add: hd_rev)
  then have 2: "dropWhile is_space (rev s) = rev s" by (cases "rev s") auto
  show ?thesis by (simp add: strip_def 1 2)
qed

lemma str_nat_ends:
  "is_digit (hd (str_nat n)) \<and> is_digit (last (str_nat n))"
  using str_nat_digits [of n]
  by (cases "str_nat n") (auto simp: list_all_iff)

lemma py_int_str_int: "py_int (str_int d) = Some d"
proof (cases "d < 0")
  case False
  let ?s = "str_nat (nat d)"
  have ne: "?s \<noteq> []" using str_nat_digits by blast
  have st: "strip ?s = ?s"
    using ne str_nat_ends [of "nat d"] not_space_digit by (intro strip_id) auto
  obtain c cs where s: "?s = c # cs" using ne by (cases ?s) auto
  have c: "is_digit c" using str_nat_ends [of "nat d"] s by simp
  have "parse_digits 0 False ?s = Some (nat d)"
    using parse_digits_all [of ?s 0 False] str_nat_digits [of "nat d"] by simp
  then show ?thesis
    using False st s digit_not_sign [OF c] by (simp add: py_int_def str_int_def)
next
  case True
  let ?s = "str_nat (nat (- d))"
  let ?t = "CHR ''-'' # ?s"
  have ne: "?s \<noteq> []" using str_nat_digits by blast
  have "last ?t = last ?s" using ne by simp
  then have st: "strip ?t = ?t"
    using str_nat_ends [of "nat (- d)"] not_space_digit
    by (intro strip_id) (auto simp: is_space_def Let_def)
  have "parse_digits 0 False ?s = Some (nat (- d))"
    using parse_digits_all [of ?s 0 False] str_nat_digits [of "nat (- d)"] by simp
  then show ?thesis
    using True st by (simp add: py_int_def str_int_def)
qed

lemma custom_duration_result:
  "fst (custom_duration line w) = Return (accepted_duration (strip line))"
  by (auto simp: custom_duration_def accepted_duration_def input_error_def Let_def py_int_def
        strip_Nil split: option.splits)

text \<open>
  Claim C5. When the operator has given an address and chosen option 3, the custom
  duration typed on the third line is accepted exactly when it denotes an integer \<open>d\<close>
  with \<open>0 < d \<le> 432000\<close>, and \<open>d\<close> is then the duration returned; every other text
  (not a number, \<open>d \<le> 0\<close>, \<open>d > 432000\<close>) makes \<^verbatim>\<open>f_get_connection_info\<close> return \<^verbatim>\<open>None\<close>
  without raising, and the test function then returns to the menu.
\<close>

theorem custom_duration_selection:
  assumes "stdin e (inputs_read w) = Some line1" and "strip line1 \<noteq> []"
    and "stdin e (Suc (inputs_read w)) = Some line2" and "strip line2 = ''3''"
    and "stdin e (Suc (Suc (inputs_read w))) = Some line3"
  shows "fst (f_get_connection_info e w) = Return (accepted_duration (strip line3)) \<and>
         (strip line3 = str_int d \<longrightarrow>
            accepted_duration (strip line3) = (if 0 < d \<and> d \<le> 432000 then Some d else None)) \<and>
         (py_int (strip line3) = None \<longrightarrow> accepted_duration (strip line3) = None) \<and>
         (sty e \<and>
          f_setup_logging e ''ZAPPING_STANDARD''
            (f_log ''=== STARTING STANDARD ZAPPING TEST ==='' [] w0) = (True, w) \<and>
          accepted_duration (strip line3) = None \<longrightarrow>
            f_test_zapping_standard e w0 = Some (Return (), snd (f_get_connection_info e w)))"
proof (intro conjI impI)
  show r: "fst (f_get_connection_info e w) = Return (accepted_duration (strip line3))"
    using assms custom_duration_result
    by (simp add: f_get_connection_info_def input_def f_list_connected_devices_def
          subprocess_run_def print_def Let_def split: proc.splits)
  assume a: "sty e \<and>
          f_setup_logging e ''ZAPPING_STANDARD''
            (f_log ''=== STARTING STANDARD ZAPPING TEST ==='' [] w0) = (True, w) \<and>
          accepted_duration (strip line3) = None"
  obtain x w2 where g: "f_get_connection_info e w = (x, w2)"
    by (cases "f_get_connection_info e w")
  with r a have "x = Return None" by simp
  with a g show "f_test_zapping_standard e w0 = Some (Return (), snd (f_get_connection_info e w))"
    by (simp add: f_test_zapping_standard_def Let_def)
next
  assume "strip line3 = str_int d"
  then show "accepted_duration (strip line3) = (if 0 < d \<and> d \<le> 432000 then Some d else None)"
    by (simp add: accepted_duration_def py_int_str_int)
next
  assume "py_int (strip line3) = None"
  then show "accepted_duration (strip line3) = None"
    by (simp add: accepted_duration_def)
qed

theorem custom_duration_selection_witness:
  "fst (f_get_connection_info (env_lines [''10.0.0.2'', ''3'', ''432000'']) world0)
     = Return (Some 432000) \<and>
   fst (f_get_connection_info (env_lines [''10.0.0.2'', ''3'', ''432001'']) world0)
     = Return None \<and>
   fst (f_get_connection_info (env_lines [''10.0.0.2'', ''3'', ''12h'']) world0) = Return None"
proof -
  have s1: "strip ''10.0.0.2'' \<noteq> []" by code_simp
  have s2: "strip ''3'' = ''3''" by code_simp
  have dc: "digit_char 0 = CHR ''0''" "digit_char 1 = CHR ''1''" "digit_char 2 = CHR ''2''"
    "digit_char 3 = CHR ''3''" "digit_char 4 = CHR ''4''" "digit_char (Suc 0) = CHR ''1''"
    by code_simp+
  have "strip ''432000'' = ''432000''" by code_simp
  moreover have "str_int 432000 = ''432000''"
    by (simp add: str_int_def str_nat.simps dc)
  ultimately have a: "strip ''432000'' = str_int 432000" by simp
  have "strip ''432001'' = ''432001''" by code_simp
  moreover have "str_int 432001 = ''432001''"
    by (simp add: str_int_def str_nat.simps dc)
  ultimately have b: "strip ''432001'' = str_int 432001" by simp
  have c: "py_int (strip ''12h'') = None" by code_simp
  have i: "stdin (env_lines [''10.0.0.2'', ''3'', l]) (inputs_read world0) = Some ''10.0.0.2''"
          "stdin (env_lines [''10.0.0.2'', ''3'', l]) (Suc (inputs_read world0)) = Some ''3''"
          "stdin (env_lines [''10.0.0.2'', ''3'', l]) (Suc (Suc (inputs_read world0))) = Some l"
    for l
    by (simp_all add: env_lines_def world0_def)
  note ta = custom_duration_selection [OF i(1) s1 i(2) s2 i(3), of "''432000''" 432000]
  note tb = custom_duration_selection [OF i(1) s1 i(2) s2 i(3), of "''432001''" 432001]
  note tc = custom_duration_selection [OF i(1) s1 i(2) s2 i(3), of "''12h''"]
  have "accepted_duration (strip ''432000'') = Some 432000"
    using ta a by presburger
  moreover have "accepted_duration (strip ''432001'') = None"
    using tb b by presburger
  moreover have "accepted_duration (strip ''12h'') = None"
    using tc c by blast
  ultimately show ?thesis
    using conjunct1 [OF ta] conjunct1 [OF tb] conjunct1 [OF tc] by presburger
qed






section \<open>Reconnection: readiness before recovery\<close>

lemma f_send_home_key_trace:
  "fst (f_send_home_key e d w) \<Longrightarrow>
   \<exists>out. trace (snd (f_send_home_key e d w)) =
     [Sleep 10, Log ''{} sent successfully'' [S ''KEY_HOME''],
      Adb (KeyEvent d ''3'') (Completed out)] @ trace w"
  using send_then_sleep_trace [of e d "''3''" "''KEY_HOME''" 10 w]
  by (auto simp: f_send_home_key_def send_events_def send_ok_def split: proc.splits)

lemma f_is_device_ready_trace:
  "fst (f_is_device_ready e d w) \<Longrightarrow>
   \<exists>r. is_ready_reply r \<and> trace (snd (f_is_device_ready e d w)) = Adb (GetState d) r # trace w"
  by (auto simp: f_is_device_ready_def subprocess_run_def Let_def is_ready_reply_def
        split: proc.splits)

lemma f_connect_device_Some:
  "f_connect_device e i p w = (Return (Some d), w1) \<Longrightarrow> d = (str_opt i, p)"
  by (auto simp: f_connect_device_def subprocess_run_def Let_def split: proc.splits if_splits)

lemma reconnect_iter_Return:
  assumes "reconnect_iter e i p t0 dur w = Break (Return (d, b), w1)"
  shows "b \<and> d = (str_opt i, p) \<and> reinit_after_ready d (trace w1)"
proof -
  let ?w1 = "snd (time_time w)"
  obtain c w2 where c: "f_connect_device e i p ?w1 = (c, w2)"
    by (cases "f_connect_device e i p ?w1")
  from assms c have lt: "\<not> dur \<le> clock w - t0" and cd: "c = Return (Some d)"
    by (auto simp: reconnect_iter_def time_time_def split: if_splits result.splits option.splits
          prod.splits bool.splits)
  have d: "d = (str_opt i, p)" using c cd f_connect_device_Some by blast
  let ?r = "f_is_device_ready e d w2"
  let ?w3 = "sleep 30 (f_log ''Reconnection successful! Restarting command sequence...'' [] (snd ?r))"
  let ?h = "f_send_home_key e d ?w3"
  from assms c cd lt have r: "fst ?r" and h: "fst ?h" and b: b
    and w1: "w1 = (snd ?h)\<lparr>error_already_shown := False\<rparr>"
    by (auto simp: reconnect_iter_def time_time_def split: if_splits prod.splits bool.splits)
  from f_is_device_ready_trace [OF r] obtain rr where
    rr: "is_ready_reply rr" "trace (snd ?r) = Adb (GetState d) rr # trace w2" by blast
  from f_send_home_key_trace [OF h] obtain out where
    "trace (snd ?h) = [Sleep 10, Log ''{} sent successfully'' [S ''KEY_HOME''],
      Adb (KeyEvent d ''3'') (Completed out)] @ trace ?w3" by blast
  with rr w1 have "reinit_after_ready d (trace w1)"
    by (simp add: sleep_def f_log_def)
  with b d show ?thesis by simp
qed

lemma reconnect_loop_Return:
  "reconnect_loop e i p t0 dur w = (Return (d, b), w') \<Longrightarrow>
   b \<and> d = (str_opt i, p) \<and> reinit_after_ready d (trace w')"
proof (induction e i p t0 dur w rule: reconnect_loop.induct)
  case (1 e ip0 port0 initial_time duration w)
  show ?case
  proof (cases "reconnect_iter e ip0 port0 initial_time duration w")
    case (Break r)
    with "1.prems" have "reconnect_iter e ip0 port0 initial_time duration w = Break (Return (d, b), w')"
      by (simp add: reconnect_loop_Break)
    then show ?thesis by (rule reconnect_iter_Return)
  next
    case (Continue w1)
    from "1.prems" have "reconnect_loop e ip0 port0 initial_time duration w1 = (Return (d, b), w')"
      by (simp only: reconnect_loop_Continue [OF Continue])
    then show ?thesis by (rule "1.IH" [OF Continue])
  qed
qed


lemma f_send_key_keeps_ready:
  "reinit_after_ready d (trace w) \<Longrightarrow> c \<noteq> ''3'' \<Longrightarrow>
   reinit_after_ready d (trace (snd (f_send_key e d c n w)))"
  by (auto simp: f_send_key_def subprocess_run_def Let_def f_log_def sleep_def split: proc.splits)

lemma reconnect_iter_project1_Return:
  assumes "reconnect_iter_project1 e i p t0 dur w = Break (Return (d, b), w1)"
  shows "b \<and> d = (str_opt i, p) \<and> reinit_after_ready d (trace w1)"
proof -
  let ?w1 = "snd (time_time w)"
  obtain c w2 where c: "f_connect_device e i p ?w1 = (c, w2)"
    by (cases "f_connect_device e i p ?w1")
  from assms c have lt: "\<not> dur \<le> clock w - t0" and cd: "c = Return (Some d)"
    by (auto simp: reconnect_iter_project1_def time_time_def split: if_splits result.splits
          option.splits prod.splits bool.splits)
  have d: "d = (str_opt i, p)" using c cd f_connect_device_Some by blast
  let ?r = "f_is_device_ready e d w2"
  let ?w3 = "sleep 30 (f_log ''Reconnection successful! Restarting Project 1 sequence...'' [] (snd ?r))"
  let ?h = "f_send_home_key e d ?w3"
  let ?g = "f_send_guide_key e d (snd ?h)"
  let ?b = "f_send_back_key e d (snd ?g)"
  from assms c cd lt have r: "fst ?r" and h: "fst ?h" and b: b
    and w1: "w1 = (snd ?b)\<lparr>error_already_shown := False\<rparr>"
    by (auto simp: reconnect_iter_project1_def time_time_def split: if_splits prod.splits bool.splits)
  from f_is_device_ready_trace [OF r] obtain rr where
    rr: "is_ready_reply rr" "trace (snd ?r) = Adb (GetState d) rr # trace w2" by blast
  from f_send_home_key_trace [OF h] obtain out where
    "trace (snd ?h) = [Sleep 10, Log ''{} sent successfully'' [S ''KEY_HOME''],
      Adb (KeyEvent d ''3'') (Completed out)] @ trace ?w3" by blast
  with rr have "reinit_after_ready d (trace (snd ?h))"
    by (simp add: sleep_def f_log_def)
  then have "reinit_after_ready d (trace (sleep 5 (snd ?h)))"
    by (simp add: sleep_def)
  then have "reinit_after_ready d (trace (snd ?g))"
    unfolding f_send_guide_key_def sleep_then_send_def by (rule f_send_key_keeps_ready) simp
  then have "reinit_after_ready d (trace (sleep 10 (snd ?g)))"
    by (simp add: sleep_def)
  then have "reinit_after_ready d (trace (snd ?b))"
    unfolding f_send_back_key_def sleep_then_send_def by (rule f_send_key_keeps_ready) simp
  with b d w1 show ?thesis by simp
qed

lemma reconnect_loop_project1_Return:
  "reconnect_loop_project1 e i p t0 dur w = (Return (d, b), w') \<Longrightarrow>
   b \<and> d = (str_opt i, p) \<and> reinit_after_ready d (trace w')"
proof (induction e i p t0 dur w rule: reconnect_loop_project1.induct)
  case (1 e ip0 port0 initial_time duration w)
  show ?case
  proof (cases "reconnect_iter_project1 e ip0 port0 initial_time duration w")
    case (Break r)
    with "1.prems"
    have "reconnect_iter_project1 e ip0 port0 initial_time duration w = Break (Return (d, b), w')"
      by (simp add: reconnect_loop_project1_Break)
    then show ?thesis by (rule reconnect_iter_project1_Return)
  next
    case (Continue w1)
    from "1.prems"
    have "reconnect_loop_project1 e ip0 port0 initial_time duration w1 = (Return (d, b), w')"
      by (simp only: reconnect_loop_project1_Continue [OF Continue])
    then show ?thesis by (rule "1.IH" [OF Continue])
  qed
qed

text \<open>
  Claim C4. Whenever either reconnection routine returns, it returns the device it has just
  connected to together with \<^verbatim>\<open>True\<close>, and the HOME key that starts the reinitializer was
  sent after a successful readiness check of that device, with no connection attempt in
  between: the returned session passed the readiness check before the reinitializer ran.
\<close>

theorem recovered_session_was_ready:
  "(f_reconnect_and_reinitialize e i p t0 dur w = (Return (d, b), w') \<longrightarrow>
      b \<and> d = (str_opt i, p) \<and> reinit_after_ready d (trace w')) \<and>
   (f_reconnect_and_reinitialize_project1 e i p t0 dur w = (Return (d, b), w') \<longrightarrow>
      b \<and> d = (str_opt i, p) \<and> reinit_after_ready d (trace w'))"
  unfolding f_reconnect_and_reinitialize_def f_reconnect_and_reinitialize_project1_def
  using reconnect_loop_Return reconnect_loop_project1_Return by blast

theorem recovered_session_was_ready_witness:
  "fst (f_reconnect_and_reinitialize env_recover (Some ''10.0.0.2'') 5555 0 25 world0)
     = Return (stb, True) \<and>
   reinit_after_ready stb
     (trace (snd (f_reconnect_and_reinitialize env_recover (Some ''10.0.0.2'') 5555 0 25 world0))) \<and>
   fst (f_reconnect_and_reinitialize_project1 env_recover (Some ''10.0.0.2'') 5555 0 25 world0)
     = Return (stb, True) \<and>
   reinit_after_ready stb
     (trace (snd (f_reconnect_and_reinitialize_project1 env_recover (Some ''10.0.0.2'') 5555 0 25
                    world0)))"
proof -
  let ?a = "f_reconnect_and_reinitialize env_recover (Some ''10.0.0.2'') 5555 0 25 world0"
  let ?b = "f_reconnect_and_reinitialize_project1 env_recover (Some ''10.0.0.2'') 5555 0 25 world0"
  have a: "fst ?a = Return (stb, True)" by code_simp
  have b: "fst ?b = Return (stb, True)" by code_simp
  have a': "?a = (Return (stb, True), snd ?a)" using a by (simp add: prod_eq_iff)
  have b': "?b = (Return (stb, True), snd ?b)" using b by (simp add: prod_eq_iff)
  have "reinit_after_ready stb (trace (snd ?a))"
    using a' recovered_session_was_ready
            [where e = env_recover and i = "Some ''10.0.0.2''" and p = 5555 and ?t0.0 = 0
               and dur = 25 and w = world0 and d = stb and b = True and w' = "snd ?a"]
    by blast
  moreover have "reinit_after_ready stb (trace (snd ?b))"
    using b' recovered_session_was_ready
            [where e = env_recover and i = "Some ''10.0.0.2''" and p = 5555 and ?t0.0 = 0
               and dur = 25 and w = world0 and d = stb and b = True and w' = "snd ?b"]
    by blast
  ultimately show ?thesis using a b by simp
qed

section \<open>Reconnection: the deadline\<close>

lemma guarded_f_send_key:
  "attempts_guarded entry t0 dur (trace w) \<Longrightarrow>
   attempts_guarded entry t0 dur (trace (snd (f_send_key e d c n w)))"
  by (auto simp: f_send_key_def subprocess_run_def Let_def f_log_def sleep_def split: proc.splits)

lemma guarded_sleep:
  "attempts_guarded entry t0 dur (trace w) \<Longrightarrow> attempts_guarded entry t0 dur (trace (sleep k w))"
  by (simp add: sleep_def)

lemma guarded_f_log:
  "attempts_guarded entry t0 dur (trace w) \<Longrightarrow>
   attempts_guarded entry t0 dur (trace (f_log m a w))"
  by (simp add: f_log_def)

lemma guarded_send_then_sleep:
  "attempts_guarded entry t0 dur (trace w) \<Longrightarrow>
   attempts_guarded entry t0 dur (trace (snd (send_then_sleep e d c n k w)))"
  using guarded_f_send_key [of entry t0 dur w e d c n]
  by (auto simp: send_then_sleep_def sleep_def split: prod.splits bool.splits)

lemma guarded_sleep_then_send:
  "attempts_guarded entry t0 dur (trace w) \<Longrightarrow>
   attempts_guarded entry t0 dur (trace (snd (sleep_then_send e d c n k w)))"
  unfolding sleep_then_send_def by (intro guarded_f_send_key guarded_sleep)

lemma guarded_f_is_device_ready:
  "attempts_guarded entry t0 dur (trace w) \<Longrightarrow>
   attempts_guarded entry t0 dur (trace (snd (f_is_device_ready e d w)))"
  by (auto simp: f_is_device_ready_def subprocess_run_def Let_def split: proc.splits)

lemma guarded_f_connect_device:
  "attempts_guarded entry t0 dur (trace w) \<Longrightarrow> clock w - t0 < dur \<Longrightarrow>
   attempts_guarded entry t0 dur (trace (snd (f_connect_device e i p (snd (time_time w)))))"
  by (auto simp: f_connect_device_def subprocess_run_def time_time_def Let_def f_log_def
        sleep_def print_def clear_screen_def split: proc.splits)

lemma checks_f_send_key:
  "checks_passed entry t0 dur (trace w) \<Longrightarrow>
   checks_passed entry t0 dur (trace (snd (f_send_key e d c n w)))"
  by (auto simp: f_send_key_def subprocess_run_def Let_def f_log_def sleep_def split: proc.splits)

lemma checks_sleep:
  "checks_passed entry t0 dur (trace w) \<Longrightarrow> checks_passed entry t0 dur (trace (sleep k w))"
  by (simp add: sleep_def)

lemma checks_f_log:
  "checks_passed entry t0 dur (trace w) \<Longrightarrow> checks_passed entry t0 dur (trace (f_log m a w))"
  by (simp add: f_log_def)

lemma checks_send_then_sleep:
  "checks_passed entry t0 dur (trace w) \<Longrightarrow>
   checks_passed entry t0 dur (trace (snd (send_then_sleep e d c n k w)))"
  using checks_f_send_key [of entry t0 dur w e d c n]
  by (auto simp: send_then_sleep_def sleep_def split: prod.splits bool.splits)

lemma checks_sleep_then_send:
  "checks_passed entry t0 dur (trace w) \<Longrightarrow>
   checks_passed entry t0 dur (trace (snd (sleep_then_send e d c n k w)))"
  unfolding sleep_then_send_def by (intro checks_f_send_key checks_sleep)

lemma checks_f_is_device_ready:
  "checks_passed entry t0 dur (trace w) \<Longrightarrow>
   checks_passed entry t0 dur (trace (snd (f_is_device_ready e d w)))"
  by (auto simp: f_is_device_ready_def subprocess_run_def Let_def split: proc.splits)

lemma checks_f_connect_device:
  "checks_passed entry t0 dur (trace w) \<Longrightarrow> clock w - t0 < dur \<Longrightarrow>
   checks_passed entry t0 dur (trace (snd (f_connect_device e i p (snd (time_time w)))))"
  by (auto simp: f_connect_device_def subprocess_run_def time_time_def Let_def f_log_def
        sleep_def print_def clear_screen_def split: proc.splits)

lemma time_time_simps:
  "fst (time_time w) = clock w" "trace (snd (time_time w)) = Now (clock w) # trace w"
  by (simp_all add: time_time_def)

lemmas guarded_steps = time_time_simps guarded_f_log guarded_sleep guarded_send_then_sleep guarded_sleep_then_send
  guarded_f_is_device_ready guarded_f_connect_device

lemmas checks_steps = time_time_simps checks_f_log checks_sleep checks_send_then_sleep checks_sleep_then_send
  checks_f_is_device_ready checks_f_connect_device

lemmas key_defs = f_send_home_key_def f_send_guide_key_def f_send_back_key_def

lemma reconnect_iter_guarded:
  assumes "attempts_guarded entry t0 dur (trace w)"
  shows "reconnect_iter e i p t0 dur w = Continue w1 \<Longrightarrow> attempts_guarded entry t0 dur (trace w1)"
    and "reconnect_iter e i p t0 dur w = Break (r, w1) \<Longrightarrow> attempts_guarded entry t0 dur (trace w1)"
  using assms
  by (auto simp: reconnect_iter_def case_prod_unfold key_defs guarded_steps
        split: if_splits bool.splits result.splits option.splits)

lemma reconnect_iter_checks:
  assumes "checks_passed entry t0 dur (trace w)"
  shows "reconnect_iter e i p t0 dur w = Continue w1 \<Longrightarrow> checks_passed entry t0 dur (trace w1)"
    and "reconnect_iter e i p t0 dur w = Break (Return x, w1) \<Longrightarrow> checks_passed entry t0 dur (trace w1)"
  using assms
  by (auto simp: reconnect_iter_def case_prod_unfold key_defs checks_steps
        split: if_splits bool.splits result.splits option.splits)

lemma reconnect_iter_project1_guarded:
  assumes "attempts_guarded entry t0 dur (trace w)"
  shows "reconnect_iter_project1 e i p t0 dur w = Continue w1 \<Longrightarrow>
           attempts_guarded entry t0 dur (trace w1)"
    and "reconnect_iter_project1 e i p t0 dur w = Break (r, w1) \<Longrightarrow>
           attempts_guarded entry t0 dur (trace w1)"
  using assms
  by (auto simp: reconnect_iter_project1_def case_prod_unfold key_defs guarded_steps
        split: if_splits bool.splits result.splits option.splits)

lemma reconnect_iter_project1_checks:
  assumes "checks_passed entry t0 dur (trace w)"
  shows "reconnect_iter_project1 e i p t0 dur w = Continue w1 \<Longrightarrow>
           checks_passed entry t0 dur (trace w1)"
    and "reconnect_iter_project1 e i p t0 dur w = Break (Return x, w1) \<Longrightarrow>
           checks_passed entry t0 dur (trace w1)"
  using assms
  by (auto simp: reconnect_iter_project1_def case_prod_unfold key_defs checks_steps
        split: if_splits bool.splits result.splits option.splits)



lemma reconnect_loop_guarded:
  "attempts_guarded entry t0 dur (trace w) \<Longrightarrow> reconnect_loop e i p t0 dur w = (r, w') \<Longrightarrow>
   attempts_guarded entry t0 dur (trace w') \<and>
   (\<forall>x. r = Return x \<longrightarrow> checks_passed entry t0 dur (trace w) \<longrightarrow>
         checks_passed entry t0 dur (trace w'))"
proof (induction e i p t0 dur w rule: reconnect_loop.induct)
  case (1 e ip0 port0 initial_time duration w)
  note g = "1.prems"(1)
  show ?case
  proof (cases "reconnect_iter e ip0 port0 initial_time duration w")
    case (Break b)
    with "1.prems"(2) have b: "reconnect_iter e ip0 port0 initial_time duration w = Break (r, w')"
      by (simp add: reconnect_loop_Break)
    show ?thesis
      using reconnect_iter_guarded(2) [OF g b] reconnect_iter_checks(2) b by blast
  next
    case (Continue w1)
    from "1.prems"(2) have l: "reconnect_loop e ip0 port0 initial_time duration w1 = (r, w')"
      by (simp only: reconnect_loop_Continue [OF Continue])
    have g1: "attempts_guarded entry initial_time duration (trace w1)"
      by (rule reconnect_iter_guarded(1) [OF g Continue])
    show ?thesis
      using "1.IH" [OF Continue g1 l] reconnect_iter_checks(1) [OF _ Continue] by blast
  qed
qed

lemma reconnect_loop_project1_guarded:
  "attempts_guarded entry t0 dur (trace w) \<Longrightarrow>
   reconnect_loop_project1 e i p t0 dur w = (r, w') \<Longrightarrow>
   attempts_guarded entry t0 dur (trace w') \<and>
   (\<forall>x. r = Return x \<longrightarrow> checks_passed entry t0 dur (trace w) \<longrightarrow>
         checks_passed entry t0 dur (trace w'))"
proof (induction e i p t0 dur w rule: reconnect_loop_project1.induct)
  case (1 e ip0 port0 initial_time duration w)
  note g = "1.prems"(1)
  show ?case
  proof (cases "reconnect_iter_project1 e ip0 port0 initial_time duration w")
    case (Break b)
    with "1.prems"(2)
    have b: "reconnect_iter_project1 e ip0 port0 initial_time duration w = Break (r, w')"
      by (simp add: reconnect_loop_project1_Break)
    show ?thesis
      using reconnect_iter_project1_guarded(2) [OF g b] reconnect_iter_project1_checks(2) b
      by blast
  next
    case (Continue w1)
    from "1.prems"(2)
    have l: "reconnect_loop_project1 e ip0 port0 initial_time duration w1 = (r, w')"
      by (simp only: reconnect_loop_project1_Continue [OF Continue])
    have g1: "attempts_guarded entry initial_time duration (trace w1)"
      by (rule reconnect_iter_project1_guarded(1) [OF g Continue])
    show ?thesis
      using "1.IH" [OF Continue g1 l] reconnect_iter_project1_checks(1) [OF _ Continue] by blast
  qed
qed

lemma reconnect_loop_at_deadline:
  "dur \<le> clock w - t0 \<Longrightarrow>
   fst (reconnect_loop e i p t0 dur w) = Exit 0 \<and>
   adb_calls (snd (reconnect_loop e i p t0 dur w)) = adb_calls w"
proof -
  assume "dur \<le> clock w - t0"
  then have "reconnect_iter e i p t0 dur w =
     Break (Exit 0, f_log ''Maximum execution time reached = {} during reconnection.'' [I dur]
                      (snd (time_time w)))"
    by (simp add: reconnect_iter_def time_time_def)
  then show ?thesis
    by (simp add: reconnect_loop_Break time_time_def f_log_def)
qed

lemma reconnect_loop_project1_at_deadline:
  "dur \<le> clock w - t0 \<Longrightarrow>
   fst (reconnect_loop_project1 e i p t0 dur w) = Exit 0 \<and>
   adb_calls (snd (reconnect_loop_project1 e i p t0 dur w)) = adb_calls w"
proof -
  assume "dur \<le> clock w - t0"
  then have "reconnect_iter_project1 e i p t0 dur w =
     Break (Exit 0, f_log ''Maximum execution time reached during reconnection.'' []
                      (snd (time_time w)))"
    by (simp add: reconnect_iter_project1_def time_time_def)
  then show ?thesis
    by (simp add: reconnect_loop_project1_Break time_time_def f_log_def)
qed

text \<open>
  Claim C3, as the code has it. In both reconnection loops every connection attempt comes
  directly after a deadline check that found \<open>now - start < duration\<close>; when an iteration
  starts with \<open>now - start \<ge> duration\<close> the process exits with no further \<^verbatim>\<open>adb\<close> command;
  and a session is returned only when every deadline check of the routine had passed. The
  return itself is not bounded by the deadline: the attempt that began before it runs to
  its end.
\<close>

theorem reconnect_deadline_guard:
  "(f_reconnect_and_reinitialize e i p t0 dur w = (r, w') \<longrightarrow>
      attempts_guarded reconnect_entry t0 dur (trace w') \<and>
      (case r of
         Return x \<Rightarrow> checks_passed reconnect_entry t0 dur (trace w')
       | Exit n \<Rightarrow> n = 0 \<and> deadline_exit t0 dur w'
       | Raise x \<Rightarrow> True)) \<and>
   (f_reconnect_and_reinitialize_project1 e i p t0 dur w = (r, w') \<longrightarrow>
      attempts_guarded reconnect_entry_project1 t0 dur (trace w') \<and>
      (case r of
         Return x \<Rightarrow> checks_passed reconnect_entry_project1 t0 dur (trace w')
       | Exit n \<Rightarrow> n = 0 \<and> deadline_exit t0 dur w'
       | Raise x \<Rightarrow> True)) \<and>
   (dur \<le> clock w - t0 \<longrightarrow>
      fst (reconnect_loop e i p t0 dur w) = Exit 0 \<and>
      adb_calls (snd (reconnect_loop e i p t0 dur w)) = adb_calls w \<and>
      fst (reconnect_loop_project1 e i p t0 dur w) = Exit 0 \<and>
      adb_calls (snd (reconnect_loop_project1 e i p t0 dur w)) = adb_calls w)"
proof (intro conjI impI)
  assume a: "f_reconnect_and_reinitialize e i p t0 dur w = (r, w')"
  let ?w = "f_log ''Attempting device reconnection...'' [] w"
  have g: "attempts_guarded reconnect_entry t0 dur (trace ?w)"
    and c: "checks_passed reconnect_entry t0 dur (trace ?w)"
    by (simp_all add: f_log_def reconnect_entry_def)
  from a have l: "reconnect_loop e i p t0 dur ?w = (r, w')"
    by (simp add: f_reconnect_and_reinitialize_def)
  note gl = reconnect_loop_guarded [OF g l]
  from gl show "attempts_guarded reconnect_entry t0 dur (trace w')" by blast
  show "case r of Return x \<Rightarrow> checks_passed reconnect_entry t0 dur (trace w')
         | Exit n \<Rightarrow> n = 0 \<and> deadline_exit t0 dur w' | Raise x \<Rightarrow> True"
  proof (cases r)
    case (Return x)
    with gl c show ?thesis by simp
  next
    case (Exit n)
    with l reconnect_loop_exit [of e i p t0 dur ?w n w'] show ?thesis by simp
  next
    case (Raise x)
    then show ?thesis by simp
  qed
next
  assume a: "f_reconnect_and_reinitialize_project1 e i p t0 dur w = (r, w')"
  let ?w = "f_log ''Attempting device reconnection (Project 1)...'' [] w"
  have g: "attempts_guarded reconnect_entry_project1 t0 dur (trace ?w)"
    and c: "checks_passed reconnect_entry_project1 t0 dur (trace ?w)"
    by (simp_all add: f_log_def reconnect_entry_project1_def)
  from a have l: "reconnect_loop_project1 e i p t0 dur ?w = (r, w')"
    by (simp add: f_reconnect_and_reinitialize_project1_def)
  note gl = reconnect_loop_project1_guarded [OF g l]
  from gl show "attempts_guarded reconnect_entry_project1 t0 dur (trace w')" by blast
  show "case r of Return x \<Rightarrow> checks_passed reconnect_entry_project1 t0 dur (trace w')
         | Exit n \<Rightarrow> n = 0 \<and> deadline_exit t0 dur w' | Raise x \<Rightarrow> True"
  proof (cases r)
    case (Return x)
    with gl c show ?thesis by simp
  next
    case (Exit n)
    with l reconnect_loop_project1_exit [of e i p t0 dur ?w n w'] show ?thesis by simp
  next
    case (Raise x)
    then show ?thesis by simp
  qed
next
  assume d: "dur \<le> clock w - t0"
  from reconnect_loop_at_deadline [OF d] reconnect_loop_project1_at_deadline [OF d]
  show "fst (reconnect_loop e i p t0 dur w) = Exit 0"
    and "adb_calls (snd (reconnect_loop e i p t0 dur w)) = adb_calls w"
    and "fst (reconnect_loop_project1 e i p t0 dur w) = Exit 0"
    and "adb_calls (snd (reconnect_loop_project1 e i p t0 dur w)) = adb_calls w"
    by simp_all
qed

theorem reconnect_deadline_guard_witness:
  "attempts_guarded reconnect_entry 0 25
     (trace (snd (f_reconnect_and_reinitialize env_down (Some ''10.0.0.2'') 5555 0 25 world0))) \<and>
   fst (f_reconnect_and_reinitialize env_down (Some ''10.0.0.2'') 5555 0 25 world0) = Exit 0 \<and>
   deadline_exit 0 25
     (snd (f_reconnect_and_reinitialize env_down (Some ''10.0.0.2'') 5555 0 25 world0)) \<and>
   checks_passed reconnect_entry_project1 0 25
     (trace (snd (f_reconnect_and_reinitialize_project1 env_recover (Some ''10.0.0.2'') 5555 0 25
                    world0))) \<and>
   fst (reconnect_loop env_recover (Some ''10.0.0.2'') 5555 0 25 (world0\<lparr>clock := 25\<rparr>)) = Exit 0"
proof -
  let ?a = "f_reconnect_and_reinitialize env_down (Some ''10.0.0.2'') 5555 0 25 world0"
  let ?b = "f_reconnect_and_reinitialize_project1 env_recover (Some ''10.0.0.2'') 5555 0 25 world0"
  have a: "fst ?a = Exit 0" by code_simp
  have b: "fst ?b = Return (stb, True)" by code_simp
  have a': "?a = (Exit 0, snd ?a)" using a by (simp add: prod_eq_iff)
  have b': "?b = (Return (stb, True), snd ?b)" using b by (simp add: prod_eq_iff)
  have c: "(25::int) \<le> clock (world0\<lparr>clock := 25\<rparr>) - 0" by simp
  note ta = reconnect_deadline_guard
              [where e = env_down and i = "Some ''10.0.0.2''" and p = 5555 and ?t0.0 = 0
                 and dur = 25 and w = world0 and r = "Exit 0" and w' = "snd ?a"]
  note tb = reconnect_deadline_guard
              [where e = env_recover and i = "Some ''10.0.0.2''" and p = 5555 and ?t0.0 = 0
                 and dur = 25 and w = world0 and r = "Return (stb, True)" and w' = "snd ?b"]
  note tc = reconnect_deadline_guard
              [where e = env_recover and i = "Some ''10.0.0.2''" and p = 5555 and ?t0.0 = 0
                 and dur = 25 and w = "world0\<lparr>clock := 25\<rparr>"]
  from ta a' have "attempts_guarded reconnect_entry 0 25 (trace (snd ?a))"
    and "deadline_exit 0 25 (snd ?a)" by simp_all
  moreover from tb b' have "checks_passed reconnect_entry_project1 0 25 (trace (snd ?b))"
    by simp
  moreover from tc c
  have "fst (reconnect_loop env_recover (Some ''10.0.0.2'') 5555 0 25 (world0\<lparr>clock := 25\<rparr>)) = Exit 0"
    by blast
  ultimately show ?thesis using a by simp
qed

text \<open>The claim as stated fails in its last part: with a deadline 25 seconds after the
  start, an attempt begun at second 0 returns its session at second 50.\<close>

theorem late_recovery_counterexample:
  "fst (f_reconnect_and_reinitialize env_recover (Some ''10.0.0.2'') 5555 0 25 world0)
     = Return (stb, True) \<and>
   clock (snd (f_reconnect_and_reinitialize env_recover (Some ''10.0.0.2'') 5555 0 25 world0)) - 0
     \<ge> 25"
  by code_simp

section \<open>The standby wait\<close>

lemma f_is_in_standby_eq:
  "f_is_in_standby e d w =
     (reports_standby (outcome (adb e (adb_calls w))),
      w\<lparr>clock := clock w + int (took (adb e (adb_calls w))), adb_calls := Suc (adb_calls w),
        trace := Adb (DumpsysPower d) (outcome (adb e (adb_calls w))) # trace w\<rparr>)"
  by (simp add: f_is_in_standby_def reports_standby_def subprocess_run_def Let_def
        split: proc.splits)

lemma wait_standby_iter_cases:
  "wait_standby_iter e d t0 dur w =
     (let r = outcome (adb e (adb_calls w));
          w1 = w\<lparr>clock := clock w + int (took (adb e (adb_calls w))),
                 adb_calls := Suc (adb_calls w),
                 trace := Adb (DumpsysPower d) r # trace w\<rparr>
      in if \<not> reports_standby r then Break (Return (), w1)
         else if dur \<le> clock w1 - t0 then
           Break (Exit 0, w1\<lparr>trace := Log ''Maximum time of {} reached during standby.'' [I dur]
                                       # Now (clock w1) # trace w1\<rparr>)
         else Continue (w1\<lparr>clock := clock w1 + 10,
                           trace := Sleep 10 # Now (clock w1) # trace w1\<rparr>))"
  by (simp add: wait_standby_iter_def f_is_in_standby_eq time_time_def sleep_def f_log_def Let_def)

lemma wait_standby_iter_rounds:
  assumes "wait_rounds d t0 dur (trace w)"
  shows "wait_standby_iter e d t0 dur w = Continue w1 \<Longrightarrow> wait_rounds d t0 dur (trace w1)"
    and "wait_standby_iter e d t0 dur w = Break (Return u, w1) \<Longrightarrow>
           \<exists>p. trace w1 = Adb (DumpsysPower d) p # trace w \<and> \<not> reports_standby p"
    and "wait_standby_iter e d t0 dur w = Break (Exit n, w1) \<Longrightarrow>
           n = 0 \<and> wait_exited d t0 dur w1"
    and "wait_standby_iter e d t0 dur w \<noteq> Break (Raise x, w1)"
  using assms
  by (auto simp: wait_standby_iter_cases wait_exited_def Let_def split: if_splits)

lemma wait_standby_loop_rounds:
  "wait_rounds d t0 dur (trace w) \<Longrightarrow> wait_standby_loop e d t0 dur w = (r, w') \<Longrightarrow>
   (case r of
      Return u \<Rightarrow>
        (\<exists>p rest. trace w' = Adb (DumpsysPower d) p # rest \<and> \<not> reports_standby p \<and>
                  wait_rounds d t0 dur rest)
    | Exit n \<Rightarrow> n = 0 \<and> wait_exited d t0 dur w'
    | Raise x \<Rightarrow> False)"
proof (induction e d t0 dur w rule: wait_standby_loop.induct)
  case (1 e dev initial_time duration w)
  note s = "1.prems"(1)
  show ?case
  proof (cases "wait_standby_iter e dev initial_time duration w")
    case (Break b)
    with "1.prems"(2)
    have b: "wait_standby_iter e dev initial_time duration w = Break (r, w')"
      by (simp add: wait_standby_loop_Break)
    show ?thesis
    proof (cases r)
      case (Return u)
      with wait_standby_iter_rounds(2) [OF s, of e u w'] b s show ?thesis by auto
    next
      case (Exit n)
      with wait_standby_iter_rounds(3) [OF s, of e n w'] b show ?thesis by simp
    next
      case (Raise x)
      with wait_standby_iter_rounds(4) [OF s, of e x w'] b show ?thesis by simp
    qed
  next
    case (Continue w1)
    from "1.prems"(2) have l: "wait_standby_loop e dev initial_time duration w1 = (r, w')"
      by (simp only: wait_standby_loop_Continue [OF Continue])
    note n = wait_standby_iter_rounds(1) [OF s Continue]
    show ?thesis by (rule "1.IH" [OF Continue n l])
  qed
qed

text \<open>
  Claim C2, as the code has it. The standby wait never raises. It returns only right after
  a poll for which \<^verbatim>\<open>f_is_in_standby\<close> answered \<^verbatim>\<open>False\<close>: the output of the poll shows none of
  "asleep", "dozing" and "display off", or the poll itself failed or timed out. Every poll
  but the first comes directly after a pause of 10 seconds, which follows a deadline check
  that passed, made after a poll that reported standby. When the check made after a poll
  that reported standby finds \<open>now - start \<ge> duration\<close>, the process exits with status 0
  instead of returning.
\<close>

theorem standby_wait_behaviour:
  "f_wait_standby_exit e d t0 dur w = (r, w') \<longrightarrow>
     (case r of
        Return u \<Rightarrow> wait_returned d t0 dur w'
      | Exit n \<Rightarrow> n = 0 \<and> wait_exited d t0 dur w'
      | Raise x \<Rightarrow> False)"
proof
  assume a: "f_wait_standby_exit e d t0 dur w = (r, w')"
  let ?w = "f_log ''STB is in STANDBY. Waiting for wake-up...'' [] w"
  obtain r1 w1 where l: "wait_standby_loop e d t0 dur ?w = (r1, w1)"
    by (cases "wait_standby_loop e d t0 dur ?w")
  have s: "wait_rounds d t0 dur (trace ?w)"
    by (simp add: f_log_def standby_entry_def)
  note sp = wait_standby_loop_rounds [OF s l]
  show "case r of
        Return u \<Rightarrow> wait_returned d t0 dur w'
      | Exit n \<Rightarrow> n = 0 \<and> wait_exited d t0 dur w'
      | Raise x \<Rightarrow> False"
  proof (cases r1)
    case (Return u)
    with a l have r: "r = Return ()" and w': "w' = f_log ''STB returned from standby.'' [] w1"
      by (simp_all add: f_wait_standby_exit_def)
    from sp Return obtain p rest where
      p: "trace w1 = Adb (DumpsysPower d) p # rest" "\<not> reports_standby p"
         "wait_rounds d t0 dur rest"
      by auto
    have "trace w' = Log ''STB returned from standby.'' [] # trace w1"
      using w' by (simp add: f_log_def)
    with p have "wait_returned d t0 dur w'" by (simp add: wait_returned_def)
    with r show ?thesis by simp
  next
    case (Exit n)
    with a l have r: "r = Exit n" and w': "w' = w1"
      by (simp_all add: f_wait_standby_exit_def)
    from sp Exit r w' show ?thesis by simp
  next
    case (Raise x)
    with sp show ?thesis by simp
  qed
qed

theorem standby_wait_behaviour_witness:
  "fst (f_wait_standby_exit env_wakes stb 0 25 world0) = Return () \<and>
   wait_returned stb 0 25 (snd (f_wait_standby_exit env_wakes stb 0 25 world0)) \<and>
   fst (f_wait_standby_exit env_asleep stb 0 25 world0) = Exit 0 \<and>
   wait_exited stb 0 25 (snd (f_wait_standby_exit env_asleep stb 0 25 world0))"
proof -
  let ?a = "f_wait_standby_exit env_wakes stb 0 25 world0"
  let ?b = "f_wait_standby_exit env_asleep stb 0 25 world0"
  have a: "fst ?a = Return ()" by code_simp
  have b: "fst ?b = Exit 0" by code_simp
  have a': "?a = (Return (), snd ?a)" using a by (simp add: prod_eq_iff)
  have b': "?b = (Exit 0, snd ?b)" using b by (simp add: prod_eq_iff)
  note ta = standby_wait_behaviour
              [where e = env_wakes and d = stb and ?t0.0 = 0 and dur = 25 and w = world0
                 and r = "Return ()" and w' = "snd ?a", THEN mp, OF a']
  note tb = standby_wait_behaviour
              [where e = env_asleep and d = stb and ?t0.0 = 0 and dur = 25 and w = world0
                 and r = "Exit 0" and w' = "snd ?b", THEN mp, OF b']
  from ta have 1: "wait_returned stb 0 25 (snd ?a)"
    by (simp only: result.case)
  from tb have 2: "wait_exited stb 0 25 (snd ?b)"
    by (simp only: result.case simp_thms)
  from a b 1 2 show ?thesis by (simp only: simp_thms)
qed

text \<open>A poll that times out ends the wait as if the device had woken up: no poll has
  reported the device active.\<close>

theorem failed_poll_counterexample:
  "fst (f_wait_standby_exit env_timeout stb 0 25 world0) = Return () \<and>
   trace (snd (f_wait_standby_exit env_timeout stb 0 25 world0)) =
     [Log ''STB returned from standby.'' [],
      Adb (DumpsysPower stb) (Failed TimeoutExpired),
      Log ''STB is in STANDBY. Waiting for wake-up...'' []]"
  by code_simp

end
